theory Spec2Isabelle
  imports Main "HOL-Library.AList" "HOL-Library.Word"
begin

section \<open>The host engine: values and objects\<close>

text \<open>
  \<^verbatim>\<open>Object.cpp\<close> implements the object operations of the rich API on top of the host
  engine's C interface (\<^verbatim>\<open>JSObjectSetProperty\<close>, \<^verbatim>\<open>JSObjectGetProperty\<close>, ...) and of
  JavaScript snippets handed to \<^verbatim>\<open>V82JSC::exec\<close>. The snippets are part of the source, so
  their meaning is modelled too: this section is the part of the host's object model the
  snippets and primitives of \<^verbatim>\<open>Object.cpp\<close> reach. Objects with the ordinary property
  methods (data and accessor properties, the prototype chain, extensibility) are modelled
  in full; what the host does on the other objects is taken as given.

  Numbers are integers and NaN: the layer does no arithmetic, and the only numeric fact a
  snippet observes is that NaN is not equal to itself. An error object thrown by the host
  is represented by its name.
\<close>

type_synonym objid = nat

datatype pkey = PString string | PSymbol nat

datatype jsval =
    JSUndefined
  | JSNull
  | JSBoolean bool
  | JSNumber int
  | JSNaN
  | JSString string
  | JSSymbol nat
  | JSObject objid

text \<open>
  How the evaluation of a piece of script ends: with a value, with a thrown value, or with
  the process dying inside a native callback (\<open>Crash\<close>).
\<close>

datatype 'a completion = Normal 'a | Throw jsval | Crash

text \<open>
  The registration record of \<^verbatim>\<open>Object::SetAccessor\<close> (\<^verbatim>\<open>struct AccessorInfo\<close>). The two
  callbacks are C function pointers: a pointer is an address, \<open>None\<close> the null pointer.
\<close>

record AccessorInfo =
  getter :: "nat option"
  setter :: "nat option"
  m_property :: pkey
  m_data :: jsval

text \<open>
  What calling an object does. \<open>AccessorCallback\<close> is the native function object
  \<^verbatim>\<open>SetAccessor\<close> makes with \<^verbatim>\<open>JSObjectMake\<close> (its private payload is the registration);
  \<open>ReplaceOnAssign k\<close> is the closure
  \<^verbatim>\<open>function(v) { delete this[_2]; this[_2] = v; }\<close> of \<^verbatim>\<open>SetAccessorProperty\<close> with
  \<^verbatim>\<open>_2\<close> bound to \<open>k\<close>; \<open>HasOwnPropertyFn\<close> is the built-in
  \<^verbatim>\<open>Object.prototype.hasOwnProperty\<close>; \<open>ScriptFunction n\<close> is a function of the
  embedder's script.
\<close>

datatype callable =
    NotCallable
  | AccessorCallback AccessorInfo
  | ReplaceOnAssign pkey
  | HasOwnPropertyFn
  | ScriptFunction nat

datatype property =
    DataProperty jsval bool bool bool
  | AccessorProperty jsval jsval bool bool

fun is_configurable :: "property \<Rightarrow> bool" where
  "is_configurable (DataProperty v w e c) = c"
| "is_configurable (AccessorProperty g s e c) = c"

text \<open>
  The kinds of object the operations tell apart. A plain object, a function and an array
  buffer have the ordinary property methods. A view of an array buffer (a typed array),
  the other exotic objects (arrays, string objects, ...) and proxies do not: what a read,
  an assignment, \<^verbatim>\<open>in\<close>, \<^verbatim>\<open>delete\<close>, \<^verbatim>\<open>Object.defineProperty\<close>, an own-property test and the
  listing of names do on them is the host's own, and a proxy answers
  \<^verbatim>\<open>Object.getPrototypeOf\<close> with a trap.
\<close>

datatype object_kind =
    OrdinaryObject
  | ArrayBufferObject
  | ArrayBufferViewObject
  | ExoticObject
  | ProxyObject

record jsobject =
  properties :: "(pkey \<times> property) list"
  prototype :: jsval
  extensible :: bool
  call :: callable
  kind :: object_kind

type_synonym jsheap = "objid \<Rightarrow> jsobject"

definition ordinary_properties :: "jsobject \<Rightarrow> bool" where
  "ordinary_properties ob = (kind ob = OrdinaryObject \<or> kind ob = ArrayBufferObject)"

definition get_own_property :: "jsheap \<Rightarrow> objid \<Rightarrow> pkey \<Rightarrow> property option" where
  "get_own_property h obj k = map_of (properties (h obj)) k"

definition set_own_property :: "jsheap \<Rightarrow> objid \<Rightarrow> pkey \<Rightarrow> property \<Rightarrow> jsheap" where
  "set_own_property h obj k p =
     h(obj := (h obj)\<lparr>properties := AList.update k p (properties (h obj))\<rparr>)"

definition remove_own_property :: "jsheap \<Rightarrow> objid \<Rightarrow> pkey \<Rightarrow> jsheap" where
  "remove_own_property h obj k =
     h(obj := (h obj)\<lparr>properties := AList.delete k (properties (h obj))\<rparr>)"

text \<open>
  The walk of \<open>[[Get]]\<close>, \<open>[[Set]]\<close> and \<open>[[HasProperty]]\<close> along the prototype
  chain, from \<open>obj\<close> on: it ends at the first object that has \<open>k\<close> as an own property
  (\<open>Found\<close>), at the end of the chain (\<open>Absent\<close>), or at the first object that does not
  have the ordinary property methods, which answers with its own (\<open>Handover\<close>). On a
  cyclic chain without the key the walk does not return.
\<close>

datatype lookup = Found objid property | Absent | Handover objid

partial_function (option) find_property :: "jsheap \<Rightarrow> objid \<Rightarrow> pkey \<Rightarrow> lookup option" where
  "find_property h obj k =
     (if \<not> ordinary_properties (h obj) then Some (Handover obj)
      else (case get_own_property h obj k of
              Some p \<Rightarrow> Some (Found obj p)
            | None \<Rightarrow>
                (case prototype (h obj) of
                   JSObject parent \<Rightarrow> find_property h parent k
                 | _ \<Rightarrow> Some Absent)))"

declare find_property.simps [code]

definition is_callable :: "jsheap \<Rightarrow> jsval \<Rightarrow> bool" where
  "is_callable h v = (case v of JSObject f \<Rightarrow> call (h f) \<noteq> NotCallable | _ \<Rightarrow> False)"

definition TypeError :: jsval where
  "TypeError = JSString ''TypeError''"

text \<open>\<^verbatim>\<open>JSValueToBoolean\<close>, and \<^verbatim>\<open>!x\<close> in a snippet: the host's ToBoolean.\<close>

fun JSValueToBoolean :: "jsval \<Rightarrow> bool" where
  "JSValueToBoolean JSUndefined = False"
| "JSValueToBoolean JSNull = False"
| "JSValueToBoolean (JSBoolean b) = b"
| "JSValueToBoolean (JSNumber n) = (n \<noteq> 0)"
| "JSValueToBoolean JSNaN = False"
| "JSValueToBoolean (JSString s) = (s \<noteq> [])"
| "JSValueToBoolean (JSSymbol n) = True"
| "JSValueToBoolean (JSObject x) = True"

text \<open>\<^verbatim>\<open>x == x\<close>: a value is loosely equal to itself unless it is NaN.\<close>

definition equals_itself :: "jsval \<Rightarrow> bool" where
  "equals_itself v = (v \<noteq> JSNaN)"

subsection \<open>Decimal strings\<close>

definition digit_char :: "nat \<Rightarrow> char" where
  "digit_char d = char_of (48 + d)"

function digits_of :: "nat \<Rightarrow> string" where
  "digits_of n = (if n < 10 then [digit_char n] else digits_of (n div 10) @ [digit_char (n mod 10)])"
  by pat_completeness auto
termination
  by (relation "measure id") auto

declare digits_of.simps [simp del]

definition decimal :: "int \<Rightarrow> string" where
  "decimal i = (if i < 0 then CHR ''-'' # digits_of (nat (- i)) else digits_of (nat i))"

text \<open>
  The host's ToPropertyKey and its inverse on keys. A key that is an object is converted
  by the script's own \<^verbatim>\<open>toString\<close>; the model gives the default result for it.
\<close>

fun ToPropertyKey :: "jsval \<Rightarrow> pkey" where
  "ToPropertyKey JSUndefined = PString ''undefined''"
| "ToPropertyKey JSNull = PString ''null''"
| "ToPropertyKey (JSBoolean b) = PString (if b then ''true'' else ''false'')"
| "ToPropertyKey (JSNumber n) = PString (decimal n)"
| "ToPropertyKey JSNaN = PString ''NaN''"
| "ToPropertyKey (JSString s) = PString s"
| "ToPropertyKey (JSSymbol n) = PSymbol n"
| "ToPropertyKey (JSObject x) = PString ''[object Object]''"

fun key_value :: "pkey \<Rightarrow> jsval" where
  "key_value (PString s) = JSString s"
| "key_value (PSymbol n) = JSSymbol n"

text \<open>
  The order in which the host lists the string keys of an ordinary object: the array
  indices (the canonical decimal strings of the numbers below \<open>2^32 - 1\<close>) first, in
  ascending order, then the other strings in the order the properties were made.
\<close>

fun string_keys :: "(pkey \<times> property) list \<Rightarrow> string list" where
  "string_keys [] = []"
| "string_keys ((PString n, p) # ps) = n # string_keys ps"
| "string_keys ((PSymbol n, p) # ps) = string_keys ps"

fun digits_value :: "string \<Rightarrow> nat \<Rightarrow> nat option" where
  "digits_value [] acc = Some acc"
| "digits_value (c # cs) acc =
     (let d = (of_char c :: nat)
      in if 48 \<le> d \<and> d \<le> 57 then digits_value cs (10 * acc + (d - 48)) else None)"

definition array_index :: "string \<Rightarrow> nat option" where
  "array_index s =
     (case digits_value s 0 of
        None \<Rightarrow> None
      | Some n \<Rightarrow> if s \<noteq> [] \<and> digits_of n = s \<and> n < 4294967295 then Some n else None)"

definition own_property_names :: "(pkey \<times> property) list \<Rightarrow> string list" where
  "own_property_names ps =
     map digits_of (sort (List.map_filter array_index (string_keys ps)))
     @ filter (\<lambda>n. array_index n = None) (string_keys ps)"

section \<open>The isolate, the side table and the environment\<close>

text \<open>
  \<^verbatim>\<open>TemplateImpl\<close>, \<^verbatim>\<open>ObjectTemplateImpl\<close> and \<^verbatim>\<open>InstanceWrap\<close> are declared in
  \<^verbatim>\<open>V82JSC.h\<close>; the fields kept are the ones \<^verbatim>\<open>Object.cpp\<close> reads and writes. A template is
  known by its address; its second component is \<^verbatim>\<open>m_parent\<close>, the template it inherits
  from. A null pointer is \<open>None\<close>.
\<close>

datatype TemplateImpl = TemplateImpl nat "TemplateImpl option"

fun template_address :: "TemplateImpl \<Rightarrow> nat" where
  "template_address (TemplateImpl a p) = a"

record ObjectTemplateImpl =
  m_constructor_template :: "TemplateImpl option"

record InstanceWrap =
  m_private_properties :: "objid option"
  m_num_internal_fields :: int
  m_internal_fields :: "jsval option list"
  m_object_template :: "ObjectTemplateImpl option"

text \<open>
  The state the operations work on: the host's heap of objects with its allocation
  counter and the address of \<^verbatim>\<open>Object.prototype\<close>, the isolate's scheduled-exception
  cell (\<open>None\<close> is the hole value), and the table \<^verbatim>\<open>V82JSC::getPrivateInstance\<close> reads.
\<close>

record isolate =
  heap :: jsheap
  next_object :: objid
  object_prototype :: objid
  scheduled_exception :: "jsval option"
  private_instances :: "objid \<Rightarrow> InstanceWrap option"

text \<open>
  What a user callback leaves behind: the return value it set (\<open>None\<close>: it set none),
  the exception the \<^verbatim>\<open>TryCatch\<close> around the call caught, and the state.
\<close>

record callback_result =
  cb_return :: "jsval option"
  cb_caught :: "jsval option"
  cb_isolate :: isolate

text \<open>
  The parts that are not in \<^verbatim>\<open>Object.cpp\<close> and that the operations take as given:
  \<^item> the embedder's callbacks behind the function pointers (getter: property, receiver,
    data; setter: property, value, receiver, data) and the functions of its script;
  \<^item> the host's \<^verbatim>\<open>JSObjectSetPrototype\<close>, which returns nothing;
  \<^item> the host's property methods on an object that does not have the ordinary ones: read
    and assignment (with the receiver), \<^verbatim>\<open>in\<close>, \<^verbatim>\<open>delete\<close>, the definition of an accessor
    (\<^verbatim>\<open>get\<close> and \<^verbatim>\<open>set\<close> each present or not), the own-property test and the listing of
    the own names; and the trap behind \<^verbatim>\<open>Object.getPrototypeOf\<close> on a proxy;
  \<^item> what \<^verbatim>\<open>V82JSC::exec\<close> does when it is called with no exception slot and the
    snippet throws (\<open>None\<close>: it aborts; otherwise the value it returns and the state);
  \<^item> the helpers \<^verbatim>\<open>GetArrayBufferInfo\<close> and \<^verbatim>\<open>GetArrayBufferViewInfo\<close> and the constant
    \<^verbatim>\<open>ArrayBufferView::kInternalFieldCount\<close>.
\<close>

record environment =
  getter_callbacks :: "nat \<Rightarrow> pkey \<Rightarrow> jsval \<Rightarrow> jsval \<Rightarrow> isolate \<Rightarrow> callback_result"
  setter_callbacks :: "nat \<Rightarrow> pkey \<Rightarrow> jsval \<Rightarrow> jsval \<Rightarrow> jsval \<Rightarrow> isolate \<Rightarrow> callback_result"
  script_functions :: "nat \<Rightarrow> jsval \<Rightarrow> jsval list \<Rightarrow> isolate \<Rightarrow> jsval completion \<times> isolate"
  JSObjectSetPrototype :: "isolate \<Rightarrow> objid \<Rightarrow> jsval \<Rightarrow> isolate"
  exotic_get :: "isolate \<Rightarrow> objid \<Rightarrow> pkey \<Rightarrow> objid \<Rightarrow> jsval completion \<times> isolate"
  exotic_set :: "isolate \<Rightarrow> objid \<Rightarrow> pkey \<Rightarrow> jsval \<Rightarrow> objid \<Rightarrow> bool completion \<times> isolate"
  exotic_has :: "isolate \<Rightarrow> objid \<Rightarrow> pkey \<Rightarrow> bool completion \<times> isolate"
  exotic_delete :: "isolate \<Rightarrow> objid \<Rightarrow> pkey \<Rightarrow> bool completion \<times> isolate"
  exotic_define_accessor ::
    "isolate \<Rightarrow> objid \<Rightarrow> pkey \<Rightarrow> jsval option \<Rightarrow> jsval option \<Rightarrow> unit completion \<times> isolate"
  exotic_has_own :: "isolate \<Rightarrow> objid \<Rightarrow> pkey \<Rightarrow> bool completion \<times> isolate"
  exotic_own_names :: "isolate \<Rightarrow> objid \<Rightarrow> string list completion \<times> isolate"
  proxy_get_prototype :: "isolate \<Rightarrow> objid \<Rightarrow> jsval completion \<times> isolate"
  exec_without_slot :: "jsval \<Rightarrow> isolate \<Rightarrow> (jsval \<times> isolate) option"
  GetArrayBufferInfo :: "isolate \<Rightarrow> objid \<Rightarrow> isolate"
  GetArrayBufferViewInfo :: "isolate \<Rightarrow> objid \<Rightarrow> isolate"
  kInternalFieldCount :: int

definition getPrivateInstance :: "isolate \<Rightarrow> objid \<Rightarrow> InstanceWrap option" where
  "getPrivateInstance s obj = private_instances s obj"

definition setPrivateInstance :: "isolate \<Rightarrow> objid \<Rightarrow> InstanceWrap \<Rightarrow> isolate" where
  "setPrivateInstance s obj w = s\<lparr>private_instances := (private_instances s)(obj := Some w)\<rparr>"

text \<open>
  Modelled from the spec: \<^verbatim>\<open>V82JSC::makePrivateInstance\<close> is not in \<^verbatim>\<open>Object.cpp\<close>. The
  spec's \<open>get_or_create\<close> makes the record of an object on first need: no private
  store, no internal field, no template.
\<close>

definition makePrivateInstance :: "isolate \<Rightarrow> objid \<Rightarrow> InstanceWrap \<times> isolate" where
  "makePrivateInstance s obj =
     (let w = \<lparr>m_private_properties = None, m_num_internal_fields = 0,
                m_internal_fields = [], m_object_template = None\<rparr>
      in (w, setPrivateInstance s obj w))"

text \<open>\<^verbatim>\<open>JSObjectMake(ctx, 0, 0)\<close> and \<^verbatim>\<open>JSObjectMake(ctx, claz, wrap)\<close>: a new object whose
  prototype is \<^verbatim>\<open>Object.prototype\<close>.\<close>

definition JSObjectMake :: "isolate \<Rightarrow> callable \<Rightarrow> objid \<times> isolate" where
  "JSObjectMake s c =
     (let obj = next_object s;
          fresh = \<lparr>properties = [], prototype = JSObject (object_prototype s),
                   extensible = True, call = c, kind = OrdinaryObject\<rparr>
      in (obj, s\<lparr>heap := (heap s)(obj := fresh), next_object := Suc obj\<rparr>))"

text \<open>\<^verbatim>\<open>IsArrayBuffer()\<close> and \<^verbatim>\<open>IsArrayBufferView()\<close> of an object.\<close>

definition IsArrayBuffer :: "isolate \<Rightarrow> objid \<Rightarrow> bool" where
  "IsArrayBuffer s obj = (kind (heap s obj) = ArrayBufferObject)"

definition IsArrayBufferView :: "isolate \<Rightarrow> objid \<Rightarrow> bool" where
  "IsArrayBufferView s obj = (kind (heap s obj) = ArrayBufferViewObject)"

subsection \<open>Own-property operations\<close>

text \<open>\<open>map_result f\<close> carries on with \<open>f\<close> of a value; a throw passes through.\<close>

fun map_result :: "('a \<Rightarrow> 'b) \<Rightarrow> 'a completion \<times> isolate \<Rightarrow> 'b completion \<times> isolate" where
  "map_result f (Normal r, s) = (Normal (f r), s)"
| "map_result f (Throw e, s) = (Throw e, s)"
| "map_result f (Crash, s) = (Crash, s)"

text \<open>Whether \<open>k\<close> is an own property of the object.\<close>

definition has_own_property ::
  "environment \<Rightarrow> isolate \<Rightarrow> objid \<Rightarrow> pkey \<Rightarrow> bool completion \<times> isolate" where
  "has_own_property env s obj k =
     (if ordinary_properties (heap s obj)
      then (Normal (get_own_property (heap s) obj k \<noteq> None), s)
      else exotic_has_own env s obj k)"

text \<open>\<^verbatim>\<open>delete o[k]\<close> outside strict mode: on an ordinary object false, and no exception,
  when the own property is not configurable.\<close>

definition js_delete ::
  "environment \<Rightarrow> isolate \<Rightarrow> objid \<Rightarrow> pkey \<Rightarrow> bool completion \<times> isolate" where
  "js_delete env s obj k =
     (if ordinary_properties (heap s obj)
      then (case get_own_property (heap s) obj k of
              None \<Rightarrow> (Normal True, s)
            | Some p \<Rightarrow>
                if is_configurable p
                then (Normal True, s\<lparr>heap := remove_own_property (heap s) obj k\<rparr>)
                else (Normal False, s))
      else exotic_delete env s obj k)"

text \<open>
  What an assignment \<^verbatim>\<open>o[k] = v\<close> outside strict mode does once the prototype walk has
  ended: OrdinarySet with \<open>obj\<close> as the receiver. A failed assignment is silent.
  \<open>PutCall f\<close>: the key is an accessor and its setter \<open>f\<close> is to be called.
  \<open>PutExotic x\<close>: the walk ended at the object \<open>x\<close>, whose own method decides.
\<close>

datatype put_result = PutDone jsheap | PutCall jsval | PutExotic objid

definition create_data_property :: "jsheap \<Rightarrow> objid \<Rightarrow> pkey \<Rightarrow> jsval \<Rightarrow> jsheap" where
  "create_data_property h obj k v =
     (if extensible (h obj) then set_own_property h obj k (DataProperty v True True True) else h)"

definition put_step :: "jsheap \<Rightarrow> objid \<Rightarrow> pkey \<Rightarrow> jsval \<Rightarrow> lookup \<Rightarrow> put_result" where
  "put_step h obj k v found =
     (case found of
        Absent \<Rightarrow> PutDone (create_data_property h obj k v)
      | Handover x \<Rightarrow> PutExotic x
      | Found holder (DataProperty v0 w e c) \<Rightarrow>
          if \<not> w then PutDone h
          else (case get_own_property h obj k of
                  None \<Rightarrow> PutDone (create_data_property h obj k v)
                | Some (DataProperty v1 w1 e1 c1) \<Rightarrow>
                    if w1 then PutDone (set_own_property h obj k (DataProperty v w1 e1 c1))
                    else PutDone h
                | Some (AccessorProperty g1 s1 e1 c1) \<Rightarrow> PutDone h)
      | Found holder (AccessorProperty g st e c) \<Rightarrow>
          if st = JSUndefined then PutDone h else PutCall st)"

text \<open>
  \<^verbatim>\<open>Object.defineProperty(o, k, d)\<close> for the descriptors \<^verbatim>\<open>SetAccessorProperty\<close> writes:
  \<^verbatim>\<open>configurable: true\<close> with \<^verbatim>\<open>get\<close> and \<^verbatim>\<open>set\<close> each present or not. A field that is
  neither undefined nor callable is a TypeError on every object; on an ordinary object so
  are a property that is not configurable and a new property on an object that is not
  extensible.
\<close>

definition accessor_field_ok :: "jsheap \<Rightarrow> jsval option \<Rightarrow> bool" where
  "accessor_field_ok h f =
     (case f of None \<Rightarrow> True | Some v \<Rightarrow> v = JSUndefined \<or> is_callable h v)"

definition field_or :: "jsval option \<Rightarrow> jsval \<Rightarrow> jsval" where
  "field_or f d = (case f of None \<Rightarrow> d | Some v \<Rightarrow> v)"

definition define_accessor ::
  "environment \<Rightarrow> isolate \<Rightarrow> objid \<Rightarrow> pkey \<Rightarrow> jsval option \<Rightarrow> jsval option \<Rightarrow>
     unit completion \<times> isolate" where
  "define_accessor env s obj k g st =
     (if \<not> accessor_field_ok (heap s) g then (Throw TypeError, s)
      else if \<not> accessor_field_ok (heap s) st then (Throw TypeError, s)
      else if \<not> ordinary_properties (heap s obj) then exotic_define_accessor env s obj k g st
      else (case get_own_property (heap s) obj k of
              None \<Rightarrow>
                if extensible (heap s obj)
                then (Normal (), s\<lparr>heap := set_own_property (heap s) obj k
                        (AccessorProperty (field_or g JSUndefined) (field_or st JSUndefined)
                           False True)\<rparr>)
                else (Throw TypeError, s)
            | Some (DataProperty v0 w0 e0 c0) \<Rightarrow>
                if c0
                then (Normal (), s\<lparr>heap := set_own_property (heap s) obj k
                        (AccessorProperty (field_or g JSUndefined) (field_or st JSUndefined)
                           e0 True)\<rparr>)
                else (Throw TypeError, s)
            | Some (AccessorProperty g0 s0 e0 c0) \<Rightarrow>
                if c0
                then (Normal (), s\<lparr>heap := set_own_property (heap s) obj k
                        (AccessorProperty (field_or g g0) (field_or st s0) e0 True)\<rparr>)
                else (Throw TypeError, s)))"


section \<open>The accessor invocation handler\<close>

text \<open>
  The lambda \<^verbatim>\<open>callback\<close> of \<^verbatim>\<open>Object::SetAccessor\<close> (lines 320 to 367): the
  \<^verbatim>\<open>callAsFunction\<close> of the accessor function object. It returns the value for the host
  and what it wrote to the host's exception slot. The two lines that would keep and put
  back the scheduled exception (341 and 364) are comments in the source, so they are no
  part of the function. \<open>None\<close>: the call went through a null function pointer.
\<close>

definition accessor_callback ::
  "environment \<Rightarrow> isolate \<Rightarrow> AccessorInfo \<Rightarrow> objid \<Rightarrow> jsval list \<Rightarrow>
     (jsval \<times> jsval option \<times> isolate) option" where
  "accessor_callback env s wrap thisObject arguments =
     (let thiz = JSObject thisObject;
          data = m_data wrap;
          s1 = s\<lparr>scheduled_exception := None\<rparr>;
          called =
            (if length arguments = 0
             then (case getter wrap of
                     None \<Rightarrow> None
                   | Some f \<Rightarrow>
                       (let r = getter_callbacks env f (m_property wrap) thiz data s1
                        in Some (case cb_return r of None \<Rightarrow> JSUndefined | Some v \<Rightarrow> v, r)))
             else (case setter wrap of
                     None \<Rightarrow> None
                   | Some f \<Rightarrow>
                       (let r = setter_callbacks env f (m_property wrap) (hd arguments) thiz data s1
                        in Some (JSUndefined, r))))
      in case called of
           None \<Rightarrow> None
         | Some (ret, r) \<Rightarrow>
             (let s2 = cb_isolate r
              in if cb_caught r \<noteq> None then Some (ret, cb_caught r, s2)
                 else if scheduled_exception s2 \<noteq> None
                 then Some (ret, scheduled_exception s2, s2\<lparr>scheduled_exception := None\<rparr>)
                 else Some (ret, None, s2)))"

section \<open>Calls, reads and assignments in the host\<close>

text \<open>
  Calling a value as a function with a receiver. After a native callback the host throws
  what the callback wrote to the exception slot. The closure \<open>ReplaceOnAssign k\<close> runs
  \<^verbatim>\<open>delete this[k]; this[k] = v\<close>, and the assignment may call a setter again: a call
  that recurses for ever does not return.
\<close>

partial_function (option) call_function ::
  "environment \<Rightarrow> isolate \<Rightarrow> jsval \<Rightarrow> objid \<Rightarrow> jsval list \<Rightarrow> (jsval completion \<times> isolate) option" where
  "call_function env s f this args =
     (case f of
        JSObject fo \<Rightarrow>
          (case call (heap s fo) of
             NotCallable \<Rightarrow> Some (Throw TypeError, s)
           | AccessorCallback wrap \<Rightarrow>
               (case accessor_callback env s wrap this args of
                  None \<Rightarrow> Some (Crash, s)
                | Some (ret, None, s') \<Rightarrow> Some (Normal ret, s')
                | Some (ret, Some e, s') \<Rightarrow> Some (Throw e, s'))
           | HasOwnPropertyFn \<Rightarrow>
               Some (map_result JSBoolean
                  (has_own_property env s this
                     (ToPropertyKey (case args of [] \<Rightarrow> JSUndefined | a # _ \<Rightarrow> a))))
           | ScriptFunction n \<Rightarrow> Some (script_functions env n (JSObject this) args s)
           | ReplaceOnAssign k \<Rightarrow>
               (let v = (case args of [] \<Rightarrow> JSUndefined | a # _ \<Rightarrow> a)
                in case js_delete env s this k of
                     (Throw e, s1) \<Rightarrow> Some (Throw e, s1)
                   | (Crash, s1) \<Rightarrow> Some (Crash, s1)
                   | (Normal deleted, s1) \<Rightarrow>
                       (case find_property (heap s1) this k of
                          None \<Rightarrow> None
                        | Some found \<Rightarrow>
                            (case put_step (heap s1) this k v found of
                               PutDone h2 \<Rightarrow> Some (Normal JSUndefined, s1\<lparr>heap := h2\<rparr>)
                             | PutExotic x \<Rightarrow>
                                 Some (map_result (\<lambda>b. JSUndefined) (exotic_set env s1 x k v this))
                             | PutCall g \<Rightarrow>
                                 Option.bind (call_function env s1 g this [v])
                                   (\<lambda>r. Some (map_result (\<lambda>x. JSUndefined) r))))))
      | _ \<Rightarrow> Some (Throw TypeError, s))"

declare call_function.simps [code]

text \<open>\<^verbatim>\<open>o[k]\<close>: the value of a data property, the result of an accessor's getter,
  undefined when the chain has no such key or the accessor has no getter.\<close>

definition js_get :: "environment \<Rightarrow> isolate \<Rightarrow> objid \<Rightarrow> pkey \<Rightarrow> (jsval completion \<times> isolate) option" where
  "js_get env s obj k =
     (case find_property (heap s) obj k of
        None \<Rightarrow> None
      | Some Absent \<Rightarrow> Some (Normal JSUndefined, s)
      | Some (Handover x) \<Rightarrow> Some (exotic_get env s x k obj)
      | Some (Found holder (DataProperty v w e c)) \<Rightarrow> Some (Normal v, s)
      | Some (Found holder (AccessorProperty g st e c)) \<Rightarrow>
          if g = JSUndefined then Some (Normal JSUndefined, s) else call_function env s g obj [])"

text \<open>\<^verbatim>\<open>o[k] = v\<close> outside strict mode; the value of the expression is \<open>v\<close>.\<close>

definition js_put ::
  "environment \<Rightarrow> isolate \<Rightarrow> objid \<Rightarrow> pkey \<Rightarrow> jsval \<Rightarrow> (jsval completion \<times> isolate) option" where
  "js_put env s obj k v =
     (case find_property (heap s) obj k of
        None \<Rightarrow> None
      | Some found \<Rightarrow>
          (case put_step (heap s) obj k v found of
             PutDone h' \<Rightarrow> Some (Normal v, s\<lparr>heap := h'\<rparr>)
           | PutExotic x \<Rightarrow> Some (map_result (\<lambda>b. v) (exotic_set env s x k v obj))
           | PutCall g \<Rightarrow>
               Option.bind (call_function env s g obj [v])
                 (\<lambda>r. Some (map_result (\<lambda>x. v) r))))"

text \<open>\<^verbatim>\<open>k in o\<close>.\<close>

definition js_has :: "environment \<Rightarrow> isolate \<Rightarrow> objid \<Rightarrow> pkey \<Rightarrow> (bool completion \<times> isolate) option" where
  "js_has env s obj k =
     (case find_property (heap s) obj k of
        None \<Rightarrow> None
      | Some Absent \<Rightarrow> Some (Normal False, s)
      | Some (Handover x) \<Rightarrow> Some (exotic_has env s x k)
      | Some (Found holder p) \<Rightarrow> Some (Normal True, s))"

section \<open>Results of the operations\<close>

text \<open>
  \<^verbatim>\<open>Maybe<T>\<close> and \<^verbatim>\<open>MaybeLocal<T>\<close> of the rich API, and the helper \<^verbatim>\<open>_maybe<T>\<close> the
  operations fill in field by field; \<^verbatim>\<open>toMaybe\<close> does not look at the value when the
  flag is clear.
\<close>

datatype 'a Maybe = Nothing | Just 'a

datatype 'a MaybeLocal = Empty | Local 'a

record 'a maybe_out =
  has_value :: bool
  val :: 'a

definition toMaybe :: "'a maybe_out \<Rightarrow> 'a Maybe" where
  "toMaybe out = (if has_value out then Just (val out) else Nothing)"

text \<open>
  An operation either returns to its caller, with its result, the exception it leaves
  pending for the caller (the one its \<^verbatim>\<open>LocalException\<close> holds at the end, if any) and the
  new state, or it aborts the process (\<^verbatim>\<open>assert\<close>). An operation that can run script
  has an \<open>option\<close> around this: \<open>None\<close> when the script does not return.
\<close>

datatype 'a outcome = Returned 'a "jsval option" isolate | Aborted

text \<open>
  The lines after \<^verbatim>\<open>V82JSC::exec(..., &exception)\<close> in \<^verbatim>\<open>Set\<close>, \<^verbatim>\<open>Has\<close>, \<^verbatim>\<open>Delete\<close> (by
  key) and \<^verbatim>\<open>HasRealNamedProperty\<close>: the flag is \<^verbatim>\<open>!exception.ShouldThow()\<close>, the value
  \<^verbatim>\<open>JSValueToBoolean(ctx, ret)\<close>.
\<close>

fun bool_result :: "jsval completion \<times> isolate \<Rightarrow> bool Maybe outcome" where
  "bool_result (Normal ret, s) =
     Returned (toMaybe \<lparr>has_value = True, val = JSValueToBoolean ret\<rparr>) None s"
| "bool_result (Throw e, s) = Returned (toMaybe \<lparr>has_value = False, val = False\<rparr>) (Some e) s"
| "bool_result (Crash, s) = Aborted"

text \<open>The same for \<^verbatim>\<open>Get\<close> (by key and by index) and \<^verbatim>\<open>GetOwnPropertyNames\<close>: the value,
  or the empty handle.\<close>

fun value_result :: "'a completion \<times> isolate \<Rightarrow> 'a MaybeLocal outcome" where
  "value_result (Normal ret, s) = Returned (Local ret) None s"
| "value_result (Throw e, s) = Returned Empty (Some e) s"
| "value_result (Crash, s) = Aborted"

text \<open>
  \<^verbatim>\<open>V82JSC::exec(...)\<close> called with no exception slot, as \<^verbatim>\<open>HasPrivate\<close>, \<^verbatim>\<open>GetPrivate\<close> and
  \<^verbatim>\<open>GetPrototype\<close> call it: the \<^verbatim>\<open>LocalException\<close> of the caller, if it has one, stays
  empty, and what the call does with a thrown value is the environment's.
\<close>

fun unchecked_exec ::
  "environment \<Rightarrow> jsval completion \<times> isolate \<Rightarrow> (jsval \<times> isolate) option" where
  "unchecked_exec env (Normal ret, s) = Some (ret, s)"
| "unchecked_exec env (Throw e, s) = exec_without_slot env e s"
| "unchecked_exec env (Crash, s) = None"

section \<open>Property access (Object.cpp, lines 13 to 298)\<close>

text \<open>
  Keys are property keys: the value a caller passes as a key is converted by the host.
  \<^verbatim>\<open>sprintf(ndx, "%d", index)\<close> prints the 32-bit index as a signed number.
\<close>

definition index_key :: "32 word \<Rightarrow> pkey" where
  "index_key index = PString (decimal (sint index))"

text \<open>\<^verbatim>\<open>Set(context, key, value)\<close>: the snippet \<^verbatim>\<open>return _3 == (_1[_2] = _3)\<close>.\<close>

definition snippet_set ::
  "environment \<Rightarrow> isolate \<Rightarrow> objid \<Rightarrow> pkey \<Rightarrow> jsval \<Rightarrow> (jsval completion \<times> isolate) option" where
  "snippet_set env s obj k v =
     Option.bind (js_put env s obj k v)
       (\<lambda>r. Some (map_result (\<lambda>x. JSBoolean (equals_itself v)) r))"

definition Object_Set ::
  "environment \<Rightarrow> isolate \<Rightarrow> objid \<Rightarrow> pkey \<Rightarrow> jsval \<Rightarrow> bool Maybe outcome option" where
  "Object_Set env s this key v =
     Option.bind (snippet_set env s this key v) (\<lambda>r. Some (bool_result r))"

text \<open>
  \<^verbatim>\<open>Set(context, index, value)\<close>: \<^verbatim>\<open>JSObjectSetProperty\<close> with no attributes is the plain
  assignment; the exception slot is a local \<^verbatim>\<open>JSValueRef\<close>, dropped on return. The flag
  is always set, and the value is \<^verbatim>\<open>exception == nullptr\<close>.
\<close>

definition JSObjectSetProperty ::
  "environment \<Rightarrow> isolate \<Rightarrow> objid \<Rightarrow> pkey \<Rightarrow> jsval \<Rightarrow> (jsval completion \<times> isolate) option" where
  "JSObjectSetProperty env s obj name v = js_put env s obj name v"

fun set_index_result :: "jsval completion \<times> isolate \<Rightarrow> bool Maybe outcome" where
  "set_index_result (Normal r, s) = Returned (toMaybe \<lparr>has_value = True, val = True\<rparr>) None s"
| "set_index_result (Throw e, s) = Returned (toMaybe \<lparr>has_value = True, val = False\<rparr>) None s"
| "set_index_result (Crash, s) = Aborted"

definition Object_Set_index ::
  "environment \<Rightarrow> isolate \<Rightarrow> objid \<Rightarrow> 32 word \<Rightarrow> jsval \<Rightarrow> bool Maybe outcome option" where
  "Object_Set_index env s this index v =
     Option.bind (JSObjectSetProperty env s this (index_key index) v)
       (\<lambda>r. Some (set_index_result r))"

text \<open>\<^verbatim>\<open>Get(context, key)\<close>: the snippet \<^verbatim>\<open>return _1[_2]\<close>; \<^verbatim>\<open>Get(context, index)\<close>:
  \<^verbatim>\<open>JSObjectGetProperty\<close> with a \<^verbatim>\<open>LocalException\<close>.\<close>

definition Object_Get ::
  "environment \<Rightarrow> isolate \<Rightarrow> objid \<Rightarrow> pkey \<Rightarrow> jsval MaybeLocal outcome option" where
  "Object_Get env s this key =
     Option.bind (js_get env s this key) (\<lambda>r. Some (value_result r))"

definition JSObjectGetProperty ::
  "environment \<Rightarrow> isolate \<Rightarrow> objid \<Rightarrow> pkey \<Rightarrow> (jsval completion \<times> isolate) option" where
  "JSObjectGetProperty env s obj name = js_get env s obj name"

definition Object_Get_index ::
  "environment \<Rightarrow> isolate \<Rightarrow> objid \<Rightarrow> 32 word \<Rightarrow> jsval MaybeLocal outcome option" where
  "Object_Get_index env s this index =
     Option.bind (JSObjectGetProperty env s this (index_key index)) (\<lambda>r. Some (value_result r))"

text \<open>\<^verbatim>\<open>Has(context, key)\<close>: the snippet \<^verbatim>\<open>return (_2 in _1)\<close>.\<close>

definition snippet_in ::
  "environment \<Rightarrow> isolate \<Rightarrow> objid \<Rightarrow> pkey \<Rightarrow> (jsval completion \<times> isolate) option" where
  "snippet_in env s obj k =
     Option.bind (js_has env s obj k) (\<lambda>r. Some (map_result JSBoolean r))"

definition Object_Has ::
  "environment \<Rightarrow> isolate \<Rightarrow> objid \<Rightarrow> pkey \<Rightarrow> bool Maybe outcome option" where
  "Object_Has env s this key =
     Option.bind (snippet_in env s this key) (\<lambda>r. Some (bool_result r))"

text \<open>\<^verbatim>\<open>Delete(context, key)\<close>: the snippet \<^verbatim>\<open>return delete _1[_2]\<close>.\<close>

definition snippet_delete ::
  "environment \<Rightarrow> isolate \<Rightarrow> objid \<Rightarrow> pkey \<Rightarrow> jsval completion \<times> isolate" where
  "snippet_delete env s obj k = map_result JSBoolean (js_delete env s obj k)"

definition Object_Delete :: "environment \<Rightarrow> isolate \<Rightarrow> objid \<Rightarrow> pkey \<Rightarrow> bool Maybe outcome" where
  "Object_Delete env s this key = bool_result (snippet_delete env s this key)"

text \<open>
  \<^verbatim>\<open>Has(context, index)\<close>: \<^verbatim>\<open>JSObjectHasProperty\<close> has no exception slot and returns false
  when the lookup raises; the flag is always set.
\<close>

fun has_index_result :: "bool completion \<times> isolate \<Rightarrow> bool Maybe outcome" where
  "has_index_result (Normal b, s) = Returned (toMaybe \<lparr>has_value = True, val = b\<rparr>) None s"
| "has_index_result (Throw e, s) = Returned (toMaybe \<lparr>has_value = True, val = False\<rparr>) None s"
| "has_index_result (Crash, s) = Aborted"

definition JSObjectHasProperty ::
  "environment \<Rightarrow> isolate \<Rightarrow> objid \<Rightarrow> pkey \<Rightarrow> (bool completion \<times> isolate) option" where
  "JSObjectHasProperty env s obj name = js_has env s obj name"

definition Object_Has_index ::
  "environment \<Rightarrow> isolate \<Rightarrow> objid \<Rightarrow> 32 word \<Rightarrow> bool Maybe outcome option" where
  "Object_Has_index env s this index =
     Option.bind (JSObjectHasProperty env s this (index_key index))
       (\<lambda>r. Some (has_index_result r))"

text \<open>
  \<^verbatim>\<open>Delete(context, index)\<close>: the value is what \<^verbatim>\<open>JSObjectDeleteProperty\<close> returned, the
  flag is \<^verbatim>\<open>exception == nullptr\<close>; the slot is a local \<^verbatim>\<open>JSValueRef\<close>.
\<close>

definition JSObjectDeleteProperty ::
  "environment \<Rightarrow> isolate \<Rightarrow> objid \<Rightarrow> pkey \<Rightarrow> bool completion \<times> isolate" where
  "JSObjectDeleteProperty env s obj name = js_delete env s obj name"

fun delete_index_result :: "bool completion \<times> isolate \<Rightarrow> bool Maybe outcome" where
  "delete_index_result (Normal b, s) = Returned (toMaybe \<lparr>has_value = True, val = b\<rparr>) None s"
| "delete_index_result (Throw e, s) = Returned (toMaybe \<lparr>has_value = False, val = False\<rparr>) None s"
| "delete_index_result (Crash, s) = Aborted"

definition Object_Delete_index ::
  "environment \<Rightarrow> isolate \<Rightarrow> objid \<Rightarrow> 32 word \<Rightarrow> bool Maybe outcome" where
  "Object_Delete_index env s this index =
     delete_index_result (JSObjectDeleteProperty env s this (index_key index))"

section \<open>Accessors (lines 303 to 440)\<close>

text \<open>
  The snippet of \<^verbatim>\<open>SetAccessorProperty\<close>, with \<^verbatim>\<open>_3\<close> and \<^verbatim>\<open>_4\<close> the getter and setter
  arguments:
  \<^verbatim>\<open>delete _1[_2];
  if (!_4) Object.defineProperty(_1, _2, { get: _3, set: function(v) { delete this[_2]; this[_2] = v; }, configurable: true });
  else if (!_3) Object.defineProperty(_1, _2, { set: _4, configurable: true });
  else Object.defineProperty(_1, _2, { get: _3, set: _4, configurable: true });\<close>
  The object literal of the first branch makes its closure before \<^verbatim>\<open>defineProperty\<close> runs.
\<close>

definition snippet_define_accessor ::
  "environment \<Rightarrow> isolate \<Rightarrow> objid \<Rightarrow> pkey \<Rightarrow> jsval \<Rightarrow> jsval \<Rightarrow> unit completion \<times> isolate" where
  "snippet_define_accessor env s obj k a3 a4 =
     (case js_delete env s obj k of
        (Throw e, s1) \<Rightarrow> (Throw e, s1)
      | (Crash, s1) \<Rightarrow> (Crash, s1)
      | (Normal deleted, s1) \<Rightarrow>
          if \<not> JSValueToBoolean a4
          then (case JSObjectMake s1 (ReplaceOnAssign k) of
                  (closure, s2) \<Rightarrow> define_accessor env s2 obj k (Some a3) (Some (JSObject closure)))
          else if \<not> JSValueToBoolean a3
          then define_accessor env s1 obj k None (Some a4)
          else define_accessor env s1 obj k (Some a3) (Some a4))"

text \<open>
  \<^verbatim>\<open>SetAccessorProperty(name, getter, setter, attribute, settings)\<close>: an empty handle is
  passed to the snippet as the null pointer, which the host reads as \<^verbatim>\<open>null\<close>. The
  attributes and the access control are not used by the source. The pending exception of
  the outcome is what the \<^verbatim>\<open>LocalException\<close> holds at the end.
\<close>

definition Object_SetAccessorProperty ::
  "environment \<Rightarrow> isolate \<Rightarrow> objid \<Rightarrow> pkey \<Rightarrow> jsval MaybeLocal \<Rightarrow> jsval MaybeLocal \<Rightarrow> unit outcome" where
  "Object_SetAccessorProperty env s this name getter_fn setter_fn =
     (let a3 = (case getter_fn of Empty \<Rightarrow> JSNull | Local g \<Rightarrow> g);
          a4 = (case setter_fn of Empty \<Rightarrow> JSNull | Local f \<Rightarrow> f)
      in case snippet_define_accessor env s this name a3 a4 of
           (Normal u, s') \<Rightarrow> Returned () None s'
         | (Throw e, s') \<Rightarrow> Returned () (Some e) s'
         | (Crash, s') \<Rightarrow> Aborted)"

text \<open>
  \<^verbatim>\<open>SetAccessor(context, name, getter, setter, data, settings, attribute)\<close>. The exception
  of \<^verbatim>\<open>SetAccessorProperty\<close> is caught by the \<^verbatim>\<open>TryCatch\<close> of this function and goes no
  further.
\<close>

definition Object_SetAccessor ::
  "environment \<Rightarrow> isolate \<Rightarrow> objid \<Rightarrow> pkey \<Rightarrow> nat option \<Rightarrow> nat option \<Rightarrow> jsval MaybeLocal \<Rightarrow>
     bool Maybe outcome" where
  "Object_SetAccessor env s this name getter_cb setter_cb data =
     (let wrap = \<lparr>getter = getter_cb, setter = setter_cb, m_property = name,
                   m_data = (case data of Empty \<Rightarrow> JSUndefined | Local d \<Rightarrow> d)\<rparr>
      in case JSObjectMake s (AccessorCallback wrap) of
           (accessor_function, s1) \<Rightarrow>
             (let accessor = JSObject accessor_function
              in case Object_SetAccessorProperty env s1 this name
                        (if getter_cb \<noteq> None then Local accessor else Empty)
                        (if setter_cb \<noteq> None then Local accessor else Empty) of
                   Aborted \<Rightarrow> Aborted
                 | Returned u caught s2 \<Rightarrow>
                     if caught \<noteq> None then Returned Nothing None s2
                     else Returned (toMaybe \<lparr>has_value = True, val = True\<rparr>) None s2))"

section \<open>Private properties (lines 448 to 526)\<close>

text \<open>The snippet \<^verbatim>\<open>return _1.hasOwnProperty(_2)\<close>: a read of \<^verbatim>\<open>hasOwnProperty\<close> and a
  call of what was read, with the object as receiver.\<close>

definition snippet_hasOwnProperty ::
  "environment \<Rightarrow> isolate \<Rightarrow> objid \<Rightarrow> pkey \<Rightarrow> (jsval completion \<times> isolate) option" where
  "snippet_hasOwnProperty env s obj k =
     (case js_get env s obj (PString ''hasOwnProperty'') of
        None \<Rightarrow> None
      | Some (Normal f, s1) \<Rightarrow> call_function env s1 f obj [key_value k]
      | Some (Throw e, s1) \<Rightarrow> Some (Throw e, s1)
      | Some (Crash, s1) \<Rightarrow> Some (Crash, s1))"

text \<open>
  In all four operations the first argument of the snippet is \<^verbatim>\<open>obj\<close>, the object itself;
  \<^verbatim>\<open>wrap->m_private_properties\<close> is made by \<^verbatim>\<open>SetPrivate\<close> and tested by the other three,
  and no snippet is given it.
\<close>

definition Object_HasPrivate ::
  "environment \<Rightarrow> isolate \<Rightarrow> objid \<Rightarrow> pkey \<Rightarrow> bool Maybe outcome option" where
  "Object_HasPrivate env s this key =
     (case getPrivateInstance s this of
        None \<Rightarrow> Some (Returned (toMaybe \<lparr>has_value = True, val = False\<rparr>) None s)
      | Some wrap \<Rightarrow>
          (case m_private_properties wrap of
             None \<Rightarrow> Some (Returned (toMaybe \<lparr>has_value = True, val = False\<rparr>) None s)
           | Some store \<Rightarrow>
               Option.bind (snippet_hasOwnProperty env s this key)
                 (\<lambda>r. Some (case unchecked_exec env r of
                       None \<Rightarrow> Aborted
                     | Some (ret, s') \<Rightarrow>
                         Returned (toMaybe \<lparr>has_value = True, val = JSValueToBoolean ret\<rparr>) None s'))))"

definition Object_SetPrivate ::
  "environment \<Rightarrow> isolate \<Rightarrow> objid \<Rightarrow> pkey \<Rightarrow> jsval \<Rightarrow> bool Maybe outcome option" where
  "Object_SetPrivate env s this key v =
     (case (case getPrivateInstance s this of
              None \<Rightarrow> makePrivateInstance s this
            | Some w \<Rightarrow> (w, s)) of
        (wrap, s1) \<Rightarrow>
          (let s2 = (if m_private_properties wrap = None
                     then (case JSObjectMake s1 NotCallable of
                             (store, sm) \<Rightarrow>
                               setPrivateInstance sm this (wrap\<lparr>m_private_properties := Some store\<rparr>))
                     else s1)
           in Option.bind (js_put env s2 this key v)
                (\<lambda>r. Some (case r of
                      (Throw e, s') \<Rightarrow> Returned Nothing (Some e) s'
                    | (Crash, s') \<Rightarrow> Aborted
                    | (Normal x, s') \<Rightarrow>
                        Returned (toMaybe \<lparr>has_value = True, val = True\<rparr>) None s'))))"

definition Object_DeletePrivate ::
  "environment \<Rightarrow> isolate \<Rightarrow> objid \<Rightarrow> pkey \<Rightarrow> bool Maybe outcome" where
  "Object_DeletePrivate env s this key =
     (case getPrivateInstance s this of
        None \<Rightarrow> Returned (toMaybe \<lparr>has_value = True, val = False\<rparr>) None s
      | Some wrap \<Rightarrow>
          (case m_private_properties wrap of
             None \<Rightarrow> Returned (toMaybe \<lparr>has_value = True, val = False\<rparr>) None s
           | Some store \<Rightarrow>
               (case snippet_delete env s this key of
                  (Throw e, s') \<Rightarrow> Returned Nothing (Some e) s'
                | (Crash, s') \<Rightarrow> Aborted
                | (Normal x, s') \<Rightarrow>
                    Returned (toMaybe \<lparr>has_value = True, val = True\<rparr>) None s')))"

definition Object_GetPrivate ::
  "environment \<Rightarrow> isolate \<Rightarrow> objid \<Rightarrow> pkey \<Rightarrow> jsval MaybeLocal outcome option" where
  "Object_GetPrivate env s this key =
     (case getPrivateInstance s this of
        None \<Rightarrow> Some (Returned (Local JSUndefined) None s)
      | Some wrap \<Rightarrow>
          (case m_private_properties wrap of
             None \<Rightarrow> Some (Returned (Local JSUndefined) None s)
           | Some store \<Rightarrow>
               Option.bind (js_get env s this key)
                 (\<lambda>r. Some (case unchecked_exec env r of
                       None \<Rightarrow> Aborted
                     | Some (ret, s') \<Rightarrow> Returned (Local ret) None s'))))"

section \<open>Names and prototypes (lines 562 to 648)\<close>

text \<open>
  \<^verbatim>\<open>GetOwnPropertyNames(context)\<close>: the snippet \<^verbatim>\<open>return Object.getOwnPropertyNames(_1)\<close>,
  the string keys of the own properties, enumerable or not; the array is given by its
  elements.
\<close>

definition snippet_getOwnPropertyNames ::
  "environment \<Rightarrow> isolate \<Rightarrow> objid \<Rightarrow> string list completion \<times> isolate" where
  "snippet_getOwnPropertyNames env s obj =
     (if ordinary_properties (heap s obj)
      then (Normal (own_property_names (properties (heap s obj))), s)
      else exotic_own_names env s obj)"

definition Object_GetOwnPropertyNames ::
  "environment \<Rightarrow> isolate \<Rightarrow> objid \<Rightarrow> string list MaybeLocal outcome" where
  "Object_GetOwnPropertyNames env s this = value_result (snippet_getOwnPropertyNames env s this)"

text \<open>
  \<^verbatim>\<open>GetPrototype()\<close>: the snippet \<^verbatim>\<open>return Object.getPrototypeOf(_1)\<close>, run with no
  exception slot. \<open>None\<close>: the call aborted.
\<close>

definition snippet_getPrototypeOf ::
  "environment \<Rightarrow> isolate \<Rightarrow> objid \<Rightarrow> jsval completion \<times> isolate" where
  "snippet_getPrototypeOf env s obj =
     (if kind (heap s obj) = ProxyObject then proxy_get_prototype env s obj
      else (Normal (prototype (heap s obj)), s))"

definition Object_GetPrototype :: "environment \<Rightarrow> isolate \<Rightarrow> objid \<Rightarrow> (jsval \<times> isolate) option" where
  "Object_GetPrototype env s this = unchecked_exec env (snippet_getPrototypeOf env s this)"

text \<open>\<^verbatim>\<open>SetPrototype(context, prototype)\<close>: the host's primitive returns nothing.\<close>

definition Object_SetPrototype :: "environment \<Rightarrow> isolate \<Rightarrow> objid \<Rightarrow> jsval \<Rightarrow> bool Maybe outcome" where
  "Object_SetPrototype env s this proto =
     (let s' = JSObjectSetPrototype env s this proto
      in Returned (toMaybe \<lparr>has_value = True, val = True\<rparr>) None s')"

text \<open>
  \<^verbatim>\<open>FindInstanceInPrototypeChain(tmpl)\<close>. The inner loop
  \<^verbatim>\<open>for (t = ...->m_constructor_template; t; t = t->m_parent) if (t == tmplimpl)\<close>
  compares addresses.
\<close>

fun in_template_chain :: "TemplateImpl \<Rightarrow> nat \<Rightarrow> bool" where
  "in_template_chain (TemplateImpl a p) tmplimpl =
     (if a = tmplimpl then True
      else (case p of None \<Rightarrow> False | Some t \<Rightarrow> in_template_chain t tmplimpl))"

definition instance_of_template :: "isolate \<Rightarrow> objid \<Rightarrow> nat \<Rightarrow> bool" where
  "instance_of_template s obj tmplimpl =
     (case getPrivateInstance s obj of
        None \<Rightarrow> False
      | Some instance_wrap \<Rightarrow>
          (case m_object_template instance_wrap of
             None \<Rightarrow> False
           | Some ot \<Rightarrow>
               (case m_constructor_template ot of
                  None \<Rightarrow> False
                | Some t \<Rightarrow> in_template_chain t tmplimpl)))"

partial_function (option) find_instance_loop ::
  "environment \<Rightarrow> isolate \<Rightarrow> jsval \<Rightarrow> nat \<Rightarrow> objid MaybeLocal outcome option" where
  "find_instance_loop env s proto tmplimpl =
     (case proto of
        JSObject obj \<Rightarrow>
          if instance_of_template s obj tmplimpl then Some (Returned (Local obj) None s)
          else (case Object_GetPrototype env s obj of
                  None \<Rightarrow> Some Aborted
                | Some r \<Rightarrow> find_instance_loop env (snd r) (fst r) tmplimpl)
      | _ \<Rightarrow> Some (Returned Empty None s))"

declare find_instance_loop.simps [code]

definition Object_FindInstanceInPrototypeChain ::
  "environment \<Rightarrow> isolate \<Rightarrow> objid \<Rightarrow> TemplateImpl \<Rightarrow> objid MaybeLocal outcome option" where
  "Object_FindInstanceInPrototypeChain env s this tmpl =
     find_instance_loop env s (JSObject this) (template_address tmpl)"

section \<open>Internal fields (lines 695 to 731 and 972 to 987)\<close>

text \<open>
  \<^verbatim>\<open>index\<close> is a C \<^verbatim>\<open>int\<close>, and the only test the source makes is
  \<^verbatim>\<open>index < wrap->m_num_internal_fields\<close>. An access to \<^verbatim>\<open>m_internal_fields[index]\<close> outside
  the array has no defined result in C++; the model names that case \<open>OutOfBounds\<close>.
  \<^verbatim>\<open>JSValueProtect\<close> and \<^verbatim>\<open>JSValueUnprotect\<close> keep a value alive and change no value.
\<close>

datatype 'a access = InBounds 'a | OutOfBounds

definition Object_InternalFieldCount :: "environment \<Rightarrow> isolate \<Rightarrow> objid \<Rightarrow> int \<times> isolate" where
  "Object_InternalFieldCount env s this =
     (case getPrivateInstance s this of
        Some wrap \<Rightarrow> (m_num_internal_fields wrap, s)
      | None \<Rightarrow>
          if IsArrayBufferView s this
          then (kInternalFieldCount env, GetArrayBufferViewInfo env s this)
          else (0, s))"

definition Object_SetInternalField ::
  "environment \<Rightarrow> isolate \<Rightarrow> objid \<Rightarrow> int \<Rightarrow> jsval \<Rightarrow> isolate access" where
  "Object_SetInternalField env s this index v =
     (let s1 = (if getPrivateInstance s this = None \<and> IsArrayBuffer s this
                then GetArrayBufferInfo env s this else s)
      in case getPrivateInstance s1 this of
           None \<Rightarrow> InBounds s1
         | Some wrap \<Rightarrow>
             if index < m_num_internal_fields wrap
             then (if 0 \<le> index \<and> nat index < length (m_internal_fields wrap)
                   then InBounds (setPrivateInstance s1 this
                          (wrap\<lparr>m_internal_fields := (m_internal_fields wrap)[nat index := Some v]\<rparr>))
                   else OutOfBounds)
             else InBounds s1)"

definition Object_SlowGetInternalField :: "isolate \<Rightarrow> objid \<Rightarrow> int \<Rightarrow> jsval MaybeLocal access" where
  "Object_SlowGetInternalField s this index =
     (case getPrivateInstance s this of
        None \<Rightarrow> InBounds Empty
      | Some wrap \<Rightarrow>
          if index < m_num_internal_fields wrap
          then (if 0 \<le> index \<and> nat index < length (m_internal_fields wrap)
                then (case m_internal_fields wrap ! nat index of
                        Some field \<Rightarrow> InBounds (Local field)
                      | None \<Rightarrow> InBounds (Local JSUndefined))
                else OutOfBounds)
          else InBounds Empty)"

section \<open>Operations that are not ported, and the two that are\<close>

text \<open>
  Each of these is \<^verbatim>\<open>assert(0)\<close> followed by a return that is not reached when assertions
  are compiled in; the model takes them compiled in.
\<close>

definition Object_CreateDataProperty :: "isolate \<Rightarrow> objid \<Rightarrow> pkey \<Rightarrow> jsval \<Rightarrow> bool Maybe outcome" where
  "Object_CreateDataProperty s this key v = Aborted"

definition Object_CreateDataProperty_index ::
  "isolate \<Rightarrow> objid \<Rightarrow> 32 word \<Rightarrow> jsval \<Rightarrow> bool Maybe outcome" where
  "Object_CreateDataProperty_index s this index v = Aborted"

definition Object_DefineOwnProperty ::
  "isolate \<Rightarrow> objid \<Rightarrow> pkey \<Rightarrow> jsval \<Rightarrow> nat \<Rightarrow> bool Maybe outcome" where
  "Object_DefineOwnProperty s this key v attributes = Aborted"

definition Object_DefineProperty :: "isolate \<Rightarrow> objid \<Rightarrow> pkey \<Rightarrow> property \<Rightarrow> bool Maybe outcome" where
  "Object_DefineProperty s this key descriptor = Aborted"

definition Object_GetOwnPropertyDescriptor ::
  "isolate \<Rightarrow> objid \<Rightarrow> pkey \<Rightarrow> jsval MaybeLocal outcome" where
  "Object_GetOwnPropertyDescriptor s this key = Aborted"

definition Object_HasOwnProperty :: "isolate \<Rightarrow> objid \<Rightarrow> pkey \<Rightarrow> bool Maybe outcome" where
  "Object_HasOwnProperty s this key = Aborted"

definition Object_HasOwnProperty_index :: "isolate \<Rightarrow> objid \<Rightarrow> 32 word \<Rightarrow> bool Maybe outcome" where
  "Object_HasOwnProperty_index s this index = Aborted"

definition Object_ObjectProtoToString :: "isolate \<Rightarrow> objid \<Rightarrow> string MaybeLocal outcome" where
  "Object_ObjectProtoToString s this = Aborted"

definition Object_SetIntegrityLevel :: "isolate \<Rightarrow> objid \<Rightarrow> nat \<Rightarrow> bool Maybe outcome" where
  "Object_SetIntegrityLevel s this level = Aborted"

definition Object_HasRealNamedCallbackProperty ::
  "isolate \<Rightarrow> objid \<Rightarrow> pkey \<Rightarrow> bool Maybe outcome" where
  "Object_HasRealNamedCallbackProperty s this key = Aborted"

definition Object_GetRealNamedPropertyInPrototypeChain ::
  "isolate \<Rightarrow> objid \<Rightarrow> pkey \<Rightarrow> jsval MaybeLocal outcome" where
  "Object_GetRealNamedPropertyInPrototypeChain s this key = Aborted"

definition Object_GetRealNamedPropertyAttributesInPrototypeChain ::
  "isolate \<Rightarrow> objid \<Rightarrow> pkey \<Rightarrow> nat Maybe outcome" where
  "Object_GetRealNamedPropertyAttributesInPrototypeChain s this key = Aborted"

definition Object_GetRealNamedProperty :: "isolate \<Rightarrow> objid \<Rightarrow> pkey \<Rightarrow> jsval MaybeLocal outcome" where
  "Object_GetRealNamedProperty s this key = Aborted"

definition Object_GetRealNamedPropertyAttributes ::
  "isolate \<Rightarrow> objid \<Rightarrow> pkey \<Rightarrow> nat Maybe outcome" where
  "Object_GetRealNamedPropertyAttributes s this key = Aborted"

text \<open>
  \<^verbatim>\<open>HasRealNamedProperty(context, key)\<close> (lines 782 to 799) runs the snippet
  \<^verbatim>\<open>return Object.getOwnPropertyDescriptor(_1, _2) !== undefined\<close>.
  \<^verbatim>\<open>HasRealIndexedProperty(context, index)\<close> calls it with \<^verbatim>\<open>Uint32::New(isolate, index)\<close>
  as the key: \<^verbatim>\<open>Uint32\<close> declares no \<^verbatim>\<open>New\<close> of its own, so this is
  \<^verbatim>\<open>Integer::New(Isolate*, int32_t)\<close>, the index as a signed number, which the host converts
  to its decimal string.
\<close>

definition snippet_has_descriptor ::
  "environment \<Rightarrow> isolate \<Rightarrow> objid \<Rightarrow> pkey \<Rightarrow> jsval completion \<times> isolate" where
  "snippet_has_descriptor env s obj k = map_result JSBoolean (has_own_property env s obj k)"

definition Object_HasRealNamedProperty ::
  "environment \<Rightarrow> isolate \<Rightarrow> objid \<Rightarrow> pkey \<Rightarrow> bool Maybe outcome" where
  "Object_HasRealNamedProperty env s this key = bool_result (snippet_has_descriptor env s this key)"

definition Object_HasRealIndexedProperty ::
  "environment \<Rightarrow> isolate \<Rightarrow> objid \<Rightarrow> 32 word \<Rightarrow> bool Maybe outcome" where
  "Object_HasRealIndexedProperty env s this index =
     Object_HasRealNamedProperty env s this (ToPropertyKey (JSNumber (sint index)))"

text \<open>\<^verbatim>\<open>Object::New(isolate)\<close> (lines 954 to 961).\<close>

definition Object_New :: "isolate \<Rightarrow> objid \<times> isolate" where
  "Object_New s = JSObjectMake s NotCallable"


section \<open>A small world to run the operations in\<close>

text \<open>
  A small realm: \<^verbatim>\<open>Object.prototype\<close> at address 0 carries \<^verbatim>\<open>hasOwnProperty\<close> (the function
  at address 1) and nothing else of what a full realm gives it (no \<^verbatim>\<open>__proto__\<close> accessor,
  no \<^verbatim>\<open>toString\<close>). An environment whose getters return 7, whose setters only return,
  whose script functions throw, whose \<^verbatim>\<open>JSObjectSetPrototype\<close> stores an object or null
  (the host's refusal of a cycle is left out of it), whose exotic objects have no
  property and refuse every change, and whose \<^verbatim>\<open>exec\<close> without a slot aborts on a throw.
\<close>

definition plain_object :: "jsval \<Rightarrow> jsobject" where
  "plain_object proto =
     \<lparr>properties = [], prototype = proto, extensible = True, call = NotCallable,
      kind = OrdinaryObject\<rparr>"

definition realm_heap :: jsheap where
  "realm_heap =
     (\<lambda>x. plain_object JSNull)
       (0 := (plain_object JSNull)
               \<lparr>properties := [(PString ''hasOwnProperty'', DataProperty (JSObject 1) True False True)]\<rparr>,
        1 := (plain_object (JSObject 0))\<lparr>call := HasOwnPropertyFn\<rparr>)"

definition realm :: isolate where
  "realm =
     \<lparr>heap = realm_heap, next_object = 2, object_prototype = 0,
      scheduled_exception = None, private_instances = (\<lambda>x. None)\<rparr>"

definition quiet_environment :: environment where
  "quiet_environment =
     \<lparr>getter_callbacks = (\<lambda>f name this data s.
         \<lparr>cb_return = Some (JSNumber 7), cb_caught = None, cb_isolate = s\<rparr>),
      setter_callbacks = (\<lambda>f name v this data s.
         \<lparr>cb_return = None, cb_caught = None, cb_isolate = s\<rparr>),
      script_functions = (\<lambda>n this args s. (Throw (JSString ''boom''), s)),
      JSObjectSetPrototype = (\<lambda>s obj proto.
         s\<lparr>heap := (heap s)(obj := (heap s obj)
            \<lparr>prototype := (case proto of JSObject x \<Rightarrow> proto | _ \<Rightarrow> JSNull)\<rparr>)\<rparr>),
      exotic_get = (\<lambda>s x k receiver. (Normal JSUndefined, s)),
      exotic_set = (\<lambda>s x k v receiver. (Normal False, s)),
      exotic_has = (\<lambda>s x k. (Normal False, s)),
      exotic_delete = (\<lambda>s x k. (Normal False, s)),
      exotic_define_accessor = (\<lambda>s x k g st. (Throw TypeError, s)),
      exotic_has_own = (\<lambda>s x k. (Normal False, s)),
      exotic_own_names = (\<lambda>s x. (Normal [], s)),
      proxy_get_prototype = (\<lambda>s x. (Normal JSNull, s)),
      exec_without_slot = (\<lambda>e s. None),
      GetArrayBufferInfo = (\<lambda>s obj. s),
      GetArrayBufferViewInfo = (\<lambda>s obj. s),
      kInternalFieldCount = 2\<rparr>"

text \<open>What the caller of an operation sees of an outcome, and the state it goes on in.\<close>

fun observed :: "'a outcome \<Rightarrow> ('a \<times> jsval option) option" where
  "observed (Returned r e s) = Some (r, e)"
| "observed Aborted = None"

definition state_after :: "'a outcome option \<Rightarrow> isolate \<Rightarrow> isolate" where
  "state_after r s = (case r of Some (Returned x e s') \<Rightarrow> s' | _ \<Rightarrow> s)"

text \<open>
  \<open>fresh_world\<close>: the realm after \<^verbatim>\<open>Object::New\<close>, which made the object at address 2.
  \<open>setter_world\<close>: after \<^verbatim>\<open>SetAccessor\<close> on that object for the name \<^verbatim>\<open>x\<close> with a setter
  and no getter. \<open>getter_world\<close>: the same with a getter and no setter.
\<close>

definition fresh_world :: isolate where
  "fresh_world = snd (Object_New realm)"

definition setter_world :: isolate where
  "setter_world =
     state_after
       (Some (Object_SetAccessor quiet_environment fresh_world 2 (PString ''x'') None (Some 0) Empty))
       fresh_world"

definition getter_world :: isolate where
  "getter_world =
     state_after
       (Some (Object_SetAccessor quiet_environment fresh_world 2 (PString ''x'') (Some 0) None Empty))
       fresh_world"

text \<open>An environment whose setter callbacks throw: the \<^verbatim>\<open>TryCatch\<close> of the handler catches
  the value.\<close>

definition throwing_environment :: environment where
  "throwing_environment =
     quiet_environment\<lparr>setter_callbacks := (\<lambda>f name v this data s.
        \<lparr>cb_return = None, cb_caught = Some (JSString ''boom''), cb_isolate = s\<rparr>)\<rparr>"

text \<open>
  An assignment to \<open>k\<close> on \<open>obj\<close> stores a value when \<open>obj\<close> has the ordinary property
  methods and \<open>k\<close> is an own writable data property of \<open>obj\<close>, or \<open>obj\<close> is extensible, has
  no own \<open>k\<close>, and the walk from its prototype, through objects with the ordinary
  methods, finds \<open>k\<close> nowhere or as a writable data property.
\<close>

definition assignable :: "jsheap \<Rightarrow> objid \<Rightarrow> pkey \<Rightarrow> bool" where
  "assignable h obj k =
     (ordinary_properties (h obj) \<and>
      (case get_own_property h obj k of
         Some (DataProperty v0 w e c) \<Rightarrow> w
       | Some (AccessorProperty g st e c) \<Rightarrow> False
       | None \<Rightarrow>
           extensible (h obj) \<and>
           (case prototype (h obj) of
              JSObject parent \<Rightarrow>
                (case find_property h parent k of
                   Some Absent \<Rightarrow> True
                 | Some (Found holder (DataProperty v0 w e c)) \<Rightarrow> w
                 | _ \<Rightarrow> False)
            | _ \<Rightarrow> True)))"

text \<open>The object has no private backing store: it has no record in the side table, or its
  record has a null \<^verbatim>\<open>m_private_properties\<close>.\<close>

definition no_private_store :: "isolate \<Rightarrow> objid \<Rightarrow> bool" where
  "no_private_store s this =
     (case getPrivateInstance s this of
        None \<Rightarrow> True
      | Some wrap \<Rightarrow> m_private_properties wrap = None)"

text \<open>A registration with a getter and no setter, and a state with an exception pending.\<close>

definition getter_registration :: AccessorInfo where
  "getter_registration =
     \<lparr>getter = Some 0, setter = None, m_property = PString ''x'', m_data = JSUndefined\<rparr>"

definition pending_world :: isolate where
  "pending_world = fresh_world\<lparr>scheduled_exception := Some (JSString ''pending'')\<rparr>"

text \<open>\<open>indexed_setter_world\<close>: as \<open>setter_world\<close>, for the name that index 0 prints as.\<close>

definition indexed_setter_world :: isolate where
  "indexed_setter_world =
     state_after
       (Some (Object_SetAccessor quiet_environment fresh_world 2 (index_key 0) None (Some 0) Empty))
       fresh_world"

text \<open>
  \<^verbatim>\<open>Object.defineProperty\<close> after \<^verbatim>\<open>delete\<close> succeeds on \<open>k\<close>: the object has the
  ordinary property methods, is extensible, and \<open>k\<close> is no own property of it or a
  configurable one.
\<close>

definition redefinable :: "jsheap \<Rightarrow> objid \<Rightarrow> pkey \<Rightarrow> bool" where
  "redefinable h obj k =
     (ordinary_properties (h obj) \<and> extensible (h obj) \<and>
      (case get_own_property h obj k of None \<Rightarrow> True | Some p \<Rightarrow> is_configurable p))"

text \<open>
  The objects whose internal fields \<^verbatim>\<open>Object.cpp\<close> alone decides: an object with a record
  whose array has as many slots as the record declares, or an object with no record that
  is neither an array buffer nor a view of one (for those, the source calls the helpers
  \<^verbatim>\<open>GetArrayBufferInfo\<close> and \<^verbatim>\<open>GetArrayBufferViewInfo\<close>).
\<close>

definition slots_as_declared :: "isolate \<Rightarrow> objid \<Rightarrow> bool" where
  "slots_as_declared s this =
     (case getPrivateInstance s this of
        None \<Rightarrow> \<not> IsArrayBuffer s this \<and> \<not> IsArrayBufferView s this
      | Some wrap \<Rightarrow> int (length (m_internal_fields wrap)) = m_num_internal_fields wrap)"

text \<open>
  \<open>view_world\<close>: the object at address 2 is a view of an array buffer (a typed array made
  by script) and has no record. \<open>buffer_world\<close>: the object at address 2 is an array
  buffer with no record, and \<open>buffer_environment\<close> has \<^verbatim>\<open>GetArrayBufferInfo\<close> make the
  record of a buffer, with two empty slots (the source: "ArrayBuffers have internal fields
  by default").
\<close>

definition view_world :: isolate where
  "view_world =
     fresh_world\<lparr>heap := (heap fresh_world)(2 := (heap fresh_world 2)\<lparr>kind := ArrayBufferViewObject\<rparr>)\<rparr>"

definition two_slots :: InstanceWrap where
  "two_slots =
     \<lparr>m_private_properties = None, m_num_internal_fields = 2,
      m_internal_fields = [None, None], m_object_template = None\<rparr>"

definition buffer_world :: isolate where
  "buffer_world =
     fresh_world\<lparr>heap := (heap fresh_world)(2 := (heap fresh_world 2)\<lparr>kind := ArrayBufferObject\<rparr>)\<rparr>"

definition buffer_environment :: environment where
  "buffer_environment =
     quiet_environment\<lparr>GetArrayBufferInfo := (\<lambda>s obj. setPrivateInstance s obj two_slots)\<rparr>"

subsection \<open>The words of the specification on the prototype walk\<close>

text \<open>
  Stated from the specification, to be compared with the loops of
  \<^verbatim>\<open>FindInstanceInPrototypeChain\<close>.

  The template chain of a template: the template itself, the template it inherits from,
  the one that one inherits from, and so on (by address). The template chain of an
  object: the chain of the constructor template of the template the object was made
  from; an object not made from a template has none.
\<close>

fun spec_template_chain :: "TemplateImpl \<Rightarrow> nat list" where
  "spec_template_chain (TemplateImpl a None) = [a]"
| "spec_template_chain (TemplateImpl a (Some parent)) = a # spec_template_chain parent"

definition spec_object_template_chain :: "isolate \<Rightarrow> objid \<Rightarrow> nat list" where
  "spec_object_template_chain s obj =
     (case private_instances s obj of
        None \<Rightarrow> []
      | Some r \<Rightarrow>
          (case m_object_template r of
             None \<Rightarrow> []
           | Some ot \<Rightarrow>
               (case m_constructor_template ot of
                  None \<Rightarrow> []
                | Some t \<Rightarrow> spec_template_chain t)))"

text \<open>
  The host's prototype walk from the value \<open>v\<close> is finite: it visits exactly the objects
  \<open>objs\<close>, in this order, and then reaches a value that is not an object; each step is
  the host's \<^verbatim>\<open>Object.getPrototypeOf\<close>, which returns and leaves the state as it was (so
  it does for every object that is not a proxy).
\<close>

fun prototype_step :: "jsval completion \<times> isolate \<Rightarrow> isolate \<Rightarrow> jsval option" where
  "prototype_step (Normal p, s') s = (if s' = s then Some p else None)"
| "prototype_step (Throw e, s') s = None"
| "prototype_step (Crash, s') s = None"

fun prototype_walk :: "environment \<Rightarrow> isolate \<Rightarrow> jsval \<Rightarrow> objid list \<Rightarrow> bool" where
  "prototype_walk env s v [] = (case v of JSObject x \<Rightarrow> False | _ \<Rightarrow> True)"
| "prototype_walk env s v (x # xs) =
     (v = JSObject x \<and>
      (case prototype_step (snippet_getPrototypeOf env s x) s of
         None \<Rightarrow> False
       | Some p \<Rightarrow> prototype_walk env s p xs))"

text \<open>
  \<open>templated_world\<close>: three objects in a row, 3 with prototype 2 with prototype 0
  (\<^verbatim>\<open>Object.prototype\<close>). Object 3 was made from a template whose constructor template is
  at address 13 and inherits from nothing; object 2 from one whose constructor template,
  at address 12, inherits from the template at 11, which inherits from the template at
  10; object 0 from one whose constructor template is the template at 10 itself.
\<close>

definition made_from :: "TemplateImpl \<Rightarrow> InstanceWrap" where
  "made_from t =
     \<lparr>m_private_properties = None, m_num_internal_fields = 0, m_internal_fields = [],
      m_object_template = Some \<lparr>m_constructor_template = Some t\<rparr>\<rparr>"

definition templated_world :: isolate where
  "templated_world =
     setPrivateInstance
       (setPrivateInstance
          (setPrivateInstance
             (fresh_world\<lparr>heap := (heap fresh_world)(3 := plain_object (JSObject 2)),
                          next_object := 4\<rparr>)
             3 (made_from (TemplateImpl 13 None)))
          2 (made_from (TemplateImpl 12 (Some (TemplateImpl 11 (Some (TemplateImpl 10 None)))))))
       0 (made_from (TemplateImpl 10 None))"


section \<open>Facts about the host model\<close>

lemma find_property_own:
  "ordinary_properties (h obj) \<Longrightarrow> get_own_property h obj k = Some p \<Longrightarrow>
   find_property h obj k = Some (Found obj p)"
  by (subst find_property.simps) simp

lemma find_property_parent:
  "ordinary_properties (h obj) \<Longrightarrow> get_own_property h obj k = None \<Longrightarrow>
   prototype (h obj) = JSObject parent \<Longrightarrow>
   find_property h obj k = find_property h parent k"
  by (subst find_property.simps) simp

lemma find_property_end:
  "ordinary_properties (h obj) \<Longrightarrow> get_own_property h obj k = None \<Longrightarrow>
   \<forall>parent. prototype (h obj) \<noteq> JSObject parent \<Longrightarrow>
   find_property h obj k = Some Absent"
  by (subst find_property.simps) (simp split: jsval.splits)

lemma get_own_property_set_same:
  "get_own_property (set_own_property h obj k p) obj k = Some p"
  by (simp add: get_own_property_def set_own_property_def update_conv')

lemma ordinary_properties_set:
  "ordinary_properties (set_own_property h obj k p x) = ordinary_properties (h x)"
  by (simp add: set_own_property_def ordinary_properties_def)

lemma js_put_assignable:
  assumes "assignable (heap s) obj k"
  shows "\<exists>w e c. js_put env s obj k v =
           Some (Normal v, s\<lparr>heap := set_own_property (heap s) obj k (DataProperty v w e c)\<rparr>)"
proof (cases "get_own_property (heap s) obj k")
  case None
  from assms have ord: "ordinary_properties (heap s obj)" by (simp add: assignable_def)
  from assms None have ext: "extensible (heap s obj)" by (simp add: assignable_def)
  show ?thesis
  proof (cases "\<exists>parent. prototype (heap s obj) = JSObject parent")
    case True
    then obtain parent where par: "prototype (heap s obj) = JSObject parent" by blast
    from assms None par have
      "find_property (heap s) parent k = Some Absent \<or>
       (\<exists>holder v0 e c. find_property (heap s) parent k = Some (Found holder (DataProperty v0 True e c)))"
      by (auto simp: assignable_def split: option.splits property.splits lookup.splits)
    then have "js_put env s obj k v =
        Some (Normal v, s\<lparr>heap := set_own_property (heap s) obj k (DataProperty v True True True)\<rparr>)"
      using None ext par ord
      by (auto simp: js_put_def find_property_parent put_step_def create_data_property_def)
    then show ?thesis by blast
  next
    case False
    then have "find_property (heap s) obj k = Some Absent"
      using None ord by (simp add: find_property_end)
    then have "js_put env s obj k v =
        Some (Normal v, s\<lparr>heap := set_own_property (heap s) obj k (DataProperty v True True True)\<rparr>)"
      using None ext by (simp add: js_put_def put_step_def create_data_property_def)
    then show ?thesis by blast
  qed
next
  case (Some p)
  from assms have ord: "ordinary_properties (heap s obj)" by (simp add: assignable_def)
  from assms Some obtain v0 e c where p: "p = DataProperty v0 True e c"
    by (cases p) (auto simp: assignable_def)
  have "js_put env s obj k v =
      Some (Normal v, s\<lparr>heap := set_own_property (heap s) obj k (DataProperty v True e c)\<rparr>)"
    using Some p ord by (simp add: js_put_def find_property_own put_step_def)
  then show ?thesis by blast
qed

lemma JSObjectMake_eq:
  "JSObjectMake s c =
     (next_object s,
      s\<lparr>heap := (heap s)(next_object s :=
           \<lparr>properties = [], prototype = JSObject (object_prototype s), extensible = True,
            call = c, kind = OrdinaryObject\<rparr>),
        next_object := Suc (next_object s)\<rparr>)"
  by (simp add: JSObjectMake_def Let_def)

lemma plain_object_fields:
  "properties (plain_object p) = []" "extensible (plain_object p)" "prototype (plain_object p) = p"
  "call (plain_object p) = NotCallable" "kind (plain_object p) = OrdinaryObject"
  "ordinary_properties (plain_object p)"
  by (simp_all add: plain_object_def ordinary_properties_def)

lemma fresh_world_eq:
  "fresh_world = realm\<lparr>heap := (heap realm)(2 := plain_object (JSObject 0)), next_object := 3\<rparr>"
  by (simp add: fresh_world_def Object_New_def JSObjectMake_eq realm_def plain_object_def)

lemma js_delete_redefinable:
  assumes "redefinable (heap s) obj k"
  shows "js_delete env s obj k = (Normal True, s\<lparr>heap := remove_own_property (heap s) obj k\<rparr>)"
proof (cases "get_own_property (heap s) obj k")
  case None
  then have "k \<notin> fst ` set (properties (heap s obj))"
    by (simp add: get_own_property_def map_of_eq_None_iff)
  then have "AList.delete k (properties (heap s obj)) = properties (heap s obj)"
    by (rule delete_id)
  then have "remove_own_property (heap s) obj k = heap s"
    by (simp add: remove_own_property_def)
  with None assms show ?thesis by (simp add: js_delete_def redefinable_def)
next
  case (Some p)
  with assms show ?thesis by (simp add: js_delete_def redefinable_def)
qed

lemma define_accessor_new:
  assumes "ordinary_properties (heap s obj)"
    and "get_own_property (heap s) obj k = None" and "extensible (heap s obj)"
    and "accessor_field_ok (heap s) g" and "accessor_field_ok (heap s) st"
  shows "define_accessor env s obj k g st =
    (Normal (), s\<lparr>heap := set_own_property (heap s) obj k
       (AccessorProperty (field_or g JSUndefined) (field_or st JSUndefined) False True)\<rparr>)"
  using assms by (simp add: define_accessor_def)

lemma get_own_property_removed:
  "get_own_property (remove_own_property h obj k) obj k = None"
  by (simp add: get_own_property_def remove_own_property_def delete_conv')

lemma find_property_fresh:
  "find_property ((heap realm)(2 := plain_object (JSObject 0), 3 := plain_object (JSObject 0))) 2 key
     = (if key = PString ''hasOwnProperty''
        then Some (Found 0 (DataProperty (JSObject 1) True False True)) else Some Absent)"
proof -
  let ?h = "(heap realm)(2 := plain_object (JSObject 0), 3 := plain_object (JSObject 0))"
  have up: "find_property ?h 2 key = find_property ?h 0 key"
    by (rule find_property_parent) (simp_all add: get_own_property_def plain_object_fields)
  have ord: "ordinary_properties (?h 0)"
    by (simp add: realm_def realm_heap_def plain_object_def ordinary_properties_def)
  show ?thesis
  proof (cases "key = PString ''hasOwnProperty''")
    case True
    have "find_property ?h 0 key = Some (Found 0 (DataProperty (JSObject 1) True False True))"
      using ord by (rule find_property_own)
        (simp add: True get_own_property_def realm_def realm_heap_def plain_object_fields)
    with up True show ?thesis by simp
  next
    case False
    have "find_property ?h 0 key = Some Absent"
      using ord by (rule find_property_end)
        (simp_all add: False get_own_property_def realm_def realm_heap_def plain_object_fields)
    with up False show ?thesis by simp
  qed
qed

text \<open>An object with one property: the host lists its name if it is a string.\<close>

lemma own_property_names_single:
  "own_property_names [(key, p)] = string_keys [(key, p)]"
proof (cases key)
  case (PString n)
  show ?thesis
  proof (cases "array_index n")
    case None
    with PString show ?thesis by (simp add: own_property_names_def List.map_filter_simps)
  next
    case (Some m)
    then have "digits_of m = n"
      by (simp add: array_index_def split: option.splits if_splits)
    with PString Some show ?thesis by (simp add: own_property_names_def List.map_filter_simps)
  qed
next
  case (PSymbol n)
  then show ?thesis by (simp add: own_property_names_def List.map_filter_simps)
qed

text \<open>The inner loop of \<^verbatim>\<open>FindInstanceInPrototypeChain\<close> tests membership in the template
  chain the specification speaks of.\<close>

lemma in_template_chain_spec:
  "in_template_chain t a = (a \<in> set (spec_template_chain t))"
  by (induction t rule: spec_template_chain.induct) auto

lemma instance_of_template_spec:
  "instance_of_template s obj a = (a \<in> set (spec_object_template_chain s obj))"
  by (simp add: instance_of_template_def spec_object_template_chain_def getPrivateInstance_def
      in_template_chain_spec split: option.splits)

lemma find_instance_loop_walk:
  "prototype_walk env s v objs \<Longrightarrow>
   find_instance_loop env s v t =
     Some (Returned
       (case find (\<lambda>x. t \<in> set (spec_object_template_chain s x)) objs of
          None \<Rightarrow> Empty | Some x \<Rightarrow> Local x) None s)"
proof (induction objs arbitrary: v)
  case Nil
  then show ?case
    by (subst find_instance_loop.simps) (simp split: jsval.splits)
next
  case (Cons x xs)
  obtain c s' where sn: "snippet_getPrototypeOf env s x = (c, s')"
    by (cases "snippet_getPrototypeOf env s x") auto
  from Cons.prems sn obtain p where
    v: "v = JSObject x" and
    step: "snippet_getPrototypeOf env s x = (Normal p, s)" and
    rest: "prototype_walk env s p xs"
    by (cases c) (auto split: option.splits if_splits)
  from step have gp: "Object_GetPrototype env s x = Some (p, s)"
    by (simp add: Object_GetPrototype_def)
  show ?case
    using v gp Cons.IH [OF rest]
    by (subst find_instance_loop.simps) (simp add: instance_of_template_spec)
qed

text \<open>
  The keyed operations and \<^verbatim>\<open>Get\<close> and \<^verbatim>\<open>Delete\<close> by index clear the flag when the host
  raised an exception.
\<close>

lemma flag_cleared_on_exception:
  "bool_result (Throw e, s) = Returned Nothing (Some e) s"
  "value_result (Throw e, s) = Returned Empty (Some e) s"
  "delete_index_result (Throw e, s) = Returned Nothing None s"
  by (simp_all add: toMaybe_def)

section \<open>SetPrototype\<close>

text \<open>
  C10: for every object and prototype value, \<^verbatim>\<open>SetPrototype\<close> returns a present \<open>true\<close>
  with no exception pending, in the state the host's primitive leaves, whatever the host
  did with the request.
\<close>

theorem SetPrototype_always_true:
  "Object_SetPrototype env s this proto =
     Returned (Just True) None (JSObjectSetPrototype env s this proto)"
  by (simp add: Object_SetPrototype_def toMaybe_def)

section \<open>Private properties without a backing store\<close>

text \<open>
  C7: for every object that has no private backing store and every private key,
  \<^verbatim>\<open>HasPrivate\<close> returns a present \<open>false\<close>, \<^verbatim>\<open>GetPrivate\<close> returns the undefined value and
  \<^verbatim>\<open>DeletePrivate\<close> returns a present \<open>false\<close>; each returns with no exception pending and
  the state unchanged.
\<close>

theorem private_absent_without_store:
  assumes "no_private_store s this"
  shows "Object_HasPrivate env s this key = Some (Returned (Just False) None s)
       \<and> Object_GetPrivate env s this key = Some (Returned (Local JSUndefined) None s)
       \<and> Object_DeletePrivate env s this key = Returned (Just False) None s"
proof (cases "getPrivateInstance s this")
  case None
  then show ?thesis
    by (simp add: Object_HasPrivate_def Object_GetPrivate_def Object_DeletePrivate_def toMaybe_def)
next
  case (Some wrap)
  with assms have "m_private_properties wrap = None"
    by (simp add: no_private_store_def)
  with Some show ?thesis
    by (simp add: Object_HasPrivate_def Object_GetPrivate_def Object_DeletePrivate_def toMaybe_def)
qed

theorem private_absent_without_store_witness:
  "no_private_store (snd (makePrivateInstance realm 0)) 0
   \<and> Object_HasPrivate quiet_environment (snd (makePrivateInstance realm 0)) 0 (PSymbol 1)
       = Some (Returned (Just False) None (snd (makePrivateInstance realm 0)))
   \<and> Object_GetPrivate quiet_environment (snd (makePrivateInstance realm 0)) 0 (PSymbol 1)
       = Some (Returned (Local JSUndefined) None (snd (makePrivateInstance realm 0)))
   \<and> Object_DeletePrivate quiet_environment (snd (makePrivateInstance realm 0)) 0 (PSymbol 1)
       = Returned (Just False) None (snd (makePrivateInstance realm 0))"
proof -
  have n: "no_private_store (snd (makePrivateInstance realm 0)) 0"
    by (simp add: no_private_store_def makePrivateInstance_def setPrivateInstance_def
        getPrivateInstance_def Let_def)
  from private_absent_without_store [OF n, of quiet_environment "PSymbol 1"] n show ?thesis
    by simp
qed

section \<open>The operations that abort\<close>

text \<open>
  C3, as stated, counts \<^verbatim>\<open>HasRealNamedProperty\<close> and \<^verbatim>\<open>HasRealIndexedProperty\<close> among the
  operations that abort. Both compute a result: on \<^verbatim>\<open>Object.prototype\<close> of the realm the
  first finds \<^verbatim>\<open>hasOwnProperty\<close>, and the second finds no property \<^verbatim>\<open>5\<close>.
\<close>

theorem HasRealNamedProperty_returns:
  "observed (Object_HasRealNamedProperty quiet_environment realm 0 (PString ''hasOwnProperty''))
     = Some (Just True, None)
   \<and> observed (Object_HasRealIndexedProperty quiet_environment realm 0 5) = Some (Just False, None)"
  by code_simp

text \<open>
  C3, amended: \<^verbatim>\<open>CreateDataProperty\<close> (by name and by index), \<^verbatim>\<open>DefineOwnProperty\<close>,
  \<^verbatim>\<open>DefineProperty\<close>, \<^verbatim>\<open>GetOwnPropertyDescriptor\<close>, \<^verbatim>\<open>HasOwnProperty\<close> (by name and by
  index), \<^verbatim>\<open>ObjectProtoToString\<close>, \<^verbatim>\<open>SetIntegrityLevel\<close>, \<^verbatim>\<open>HasRealNamedCallbackProperty\<close>,
  \<^verbatim>\<open>GetRealNamedPropertyInPrototypeChain\<close>,
  \<^verbatim>\<open>GetRealNamedPropertyAttributesInPrototypeChain\<close>, \<^verbatim>\<open>GetRealNamedProperty\<close> and
  \<^verbatim>\<open>GetRealNamedPropertyAttributes\<close> abort on every input; \<^verbatim>\<open>HasRealNamedProperty\<close> and
  \<^verbatim>\<open>HasRealIndexedProperty\<close> are not among them.
\<close>

theorem unported_operations_abort:
  "Object_CreateDataProperty s this key v = Aborted
   \<and> Object_CreateDataProperty_index s this index v = Aborted
   \<and> Object_DefineOwnProperty s this key v attributes = Aborted
   \<and> Object_DefineProperty s this key descriptor = Aborted
   \<and> Object_GetOwnPropertyDescriptor s this key = Aborted
   \<and> Object_HasOwnProperty s this key = Aborted
   \<and> Object_HasOwnProperty_index s this index = Aborted
   \<and> Object_ObjectProtoToString s this = Aborted
   \<and> Object_SetIntegrityLevel s this level = Aborted
   \<and> Object_HasRealNamedCallbackProperty s this key = Aborted
   \<and> Object_GetRealNamedPropertyInPrototypeChain s this key = Aborted
   \<and> Object_GetRealNamedPropertyAttributesInPrototypeChain s this key = Aborted
   \<and> Object_GetRealNamedProperty s this key = Aborted
   \<and> Object_GetRealNamedPropertyAttributes s this key = Aborted"
  by (simp add: Object_CreateDataProperty_def Object_CreateDataProperty_index_def
      Object_DefineOwnProperty_def Object_DefineProperty_def Object_GetOwnPropertyDescriptor_def
      Object_HasOwnProperty_def Object_HasOwnProperty_index_def Object_ObjectProtoToString_def
      Object_SetIntegrityLevel_def Object_HasRealNamedCallbackProperty_def
      Object_GetRealNamedPropertyInPrototypeChain_def
      Object_GetRealNamedPropertyAttributesInPrototypeChain_def Object_GetRealNamedProperty_def
      Object_GetRealNamedPropertyAttributes_def)

section \<open>Set by index when the host raises\<close>

text \<open>
  C1 asks that \<^verbatim>\<open>Set(o,i,v)\<close> return Nothing when the host raises during the call.
  \<^verbatim>\<open>Set\<close> by index does not: whenever \<^verbatim>\<open>JSObjectSetProperty\<close> raises an exception, it
  returns a present \<open>false\<close> and leaves nothing pending.
\<close>

theorem Set_index_present_on_exception:
  assumes "JSObjectSetProperty env s this (index_key index) v = Some (Throw e, s')"
  shows "Object_Set_index env s this index v = Some (Returned (Just False) None s')"
  using assms by (simp add: Object_Set_index_def toMaybe_def)

text \<open>The case at hand: the property \<^verbatim>\<open>0\<close> of the object at address 2 is an accessor
  installed by \<^verbatim>\<open>SetAccessor\<close>, and its setter callback throws.\<close>

theorem Set_index_present_on_exception_witness:
  "\<exists>s'. JSObjectSetProperty throwing_environment indexed_setter_world 2 (index_key 0) (JSNumber 5)
           = Some (Throw (JSString ''boom''), s')
       \<and> Object_Set_index throwing_environment indexed_setter_world 2 0 (JSNumber 5)
           = Some (Returned (Just False) None s')"
proof -
  have "map_option fst
          (JSObjectSetProperty throwing_environment indexed_setter_world 2 (index_key 0) (JSNumber 5))
        = Some (Throw (JSString ''boom''))"
    by code_simp
  then obtain s' where
    t: "JSObjectSetProperty throwing_environment indexed_setter_world 2 (index_key 0) (JSNumber 5)
          = Some (Throw (JSString ''boom''), s')"
    by force
  from Set_index_present_on_exception [OF t] t show ?thesis by blast
qed

section \<open>Where SetPrivate writes\<close>

text \<open>
  C4 asks that a private key never be an ordinary own property of the object. After
  \<^verbatim>\<open>SetPrivate\<close> on the fresh object at address 2, for every key and value: the call
  succeeded, the key is an own data property of the object itself, the backing store (the
  object at address 3) was made and is empty, and \<^verbatim>\<open>GetOwnPropertyNames\<close> lists the key when
  it is a string.
\<close>

theorem SetPrivate_writes_object_itself:
  "\<exists>s'. Object_SetPrivate env fresh_world 2 key v = Some (Returned (Just True) None s')
       \<and> get_own_property (heap s') 2 key = Some (DataProperty v True True True)
       \<and> map_option m_private_properties (getPrivateInstance s' 2) = Some (Some 3)
       \<and> properties (heap s' 3) = []
       \<and> Object_GetOwnPropertyNames env s' 2
            = Returned (Local (string_keys [(key, DataProperty v True True True)])) None s'"
proof -
  let ?h = "(heap realm)(2 := plain_object (JSObject 0), 3 := plain_object (JSObject 0))"
  let ?w = "\<lparr>m_private_properties = Some 3, m_num_internal_fields = 0,
             m_internal_fields = [], m_object_template = None\<rparr>"
  let ?s2 = "realm\<lparr>heap := ?h, next_object := 4,
                    private_instances := (private_instances realm)(2 := Some ?w)\<rparr>"
  let ?s' = "?s2\<lparr>heap := set_own_property ?h 2 key (DataProperty v True True True)\<rparr>"
  have put: "js_put env ?s2 2 key v = Some (Normal v, ?s')"
    by (simp add: js_put_def find_property_fresh put_step_def create_data_property_def
        get_own_property_def plain_object_fields)
  have "Object_SetPrivate env fresh_world 2 key v = Some (Returned (Just True) None ?s')"
    using put
    by (simp add: Object_SetPrivate_def fresh_world_eq getPrivateInstance_def
        makePrivateInstance_def setPrivateInstance_def JSObjectMake_eq Let_def toMaybe_def
        realm_def plain_object_def)
  moreover have "get_own_property (heap ?s') 2 key = Some (DataProperty v True True True)"
    by (simp add: get_own_property_def set_own_property_def update_conv')
  moreover have "map_option m_private_properties (getPrivateInstance ?s' 2) = Some (Some 3)"
    by (simp add: getPrivateInstance_def)
  moreover have "properties (heap ?s' 3) = []"
    by (simp add: set_own_property_def plain_object_fields)
  moreover have "Object_GetOwnPropertyNames env ?s' 2
            = Returned (Local (string_keys [(key, DataProperty v True True True)])) None ?s'"
    by (simp add: Object_GetOwnPropertyNames_def snippet_getOwnPropertyNames_def
        set_own_property_def plain_object_fields ordinary_properties_def
        own_property_names_single del: string_keys.simps)
  ultimately show ?thesis by blast
qed


section \<open>Set, then Get and Has\<close>

text \<open>
  C2, as stated: whenever \<^verbatim>\<open>Set(o,k,v)\<close> returns a present value, \<^verbatim>\<open>Get(o,k)\<close> returns \<open>v\<close>.
  It fails on an accessor this layer installs itself: \<^verbatim>\<open>x\<close> on the object at address 2
  has a setter and no getter; \<^verbatim>\<open>Set\<close> of 5 returns a present \<open>true\<close> with nothing
  pending, and \<^verbatim>\<open>Get\<close> in the state it leaves returns undefined.
\<close>

theorem Set_present_Get_differs:
  "map_option observed (Object_Set quiet_environment setter_world 2 (PString ''x'') (JSNumber 5))
     = Some (Some (Just True, None))
   \<and> map_option observed
       (Object_Get quiet_environment
          (state_after (Object_Set quiet_environment setter_world 2 (PString ''x'') (JSNumber 5))
             setter_world)
          2 (PString ''x''))
     = Some (Some (Local JSUndefined, None))"
  by code_simp

text \<open>
  C2, amended: for every object \<open>obj\<close> that has the ordinary property methods (it is not
  an array, a typed array, a proxy or another exotic object), every key \<open>k\<close> and value
  \<open>v\<close> such that \<open>k\<close> is assignable on \<open>obj\<close> (an own writable data property; or no own
  property of an extensible object, with the prototype walk, through objects with the
  ordinary methods, finding the key nowhere or as a writable data property),
  \<^verbatim>\<open>Set(o,k,v)\<close> returns a present value with nothing pending (true unless \<open>v\<close> is NaN),
  and in the state it leaves \<^verbatim>\<open>Get(o,k)\<close> returns \<open>v\<close> and \<^verbatim>\<open>Has(o,k)\<close> returns true.
\<close>

theorem Set_then_Get_Has:
  assumes "assignable (heap s) obj k"
  shows "\<exists>s'. Object_Set env s obj k v = Some (Returned (Just (equals_itself v)) None s')
             \<and> Object_Get env s' obj k = Some (Returned (Local v) None s')
             \<and> Object_Has env s' obj k = Some (Returned (Just True) None s')"
proof -
  from js_put_assignable [OF assms] obtain w e c where
    put: "js_put env s obj k v =
            Some (Normal v, s\<lparr>heap := set_own_property (heap s) obj k (DataProperty v w e c)\<rparr>)"
    by blast
  let ?s' = "s\<lparr>heap := set_own_property (heap s) obj k (DataProperty v w e c)\<rparr>"
  from assms have "ordinary_properties (heap s obj)" by (simp add: assignable_def)
  then have ord: "ordinary_properties (heap ?s' obj)"
    by (simp add: ordinary_properties_set)
  have own: "find_property (heap ?s') obj k = Some (Found obj (DataProperty v w e c))"
    using ord by (rule find_property_own) (simp add: get_own_property_set_same)
  have "Object_Set env s obj k v = Some (Returned (Just (equals_itself v)) None ?s')"
    by (simp add: Object_Set_def snippet_set_def put toMaybe_def)
  moreover have "Object_Get env ?s' obj k = Some (Returned (Local v) None ?s')"
    using own by (simp add: Object_Get_def js_get_def)
  moreover have "Object_Has env ?s' obj k = Some (Returned (Just True) None ?s')"
    using own by (simp add: Object_Has_def snippet_in_def js_has_def toMaybe_def)
  ultimately show ?thesis by blast
qed

theorem Set_then_Get_Has_witness:
  "assignable (heap fresh_world) 2 (PString ''a'')
   \<and> (\<exists>s'. Object_Set quiet_environment fresh_world 2 (PString ''a'') (JSNumber 1)
              = Some (Returned (Just (equals_itself (JSNumber 1))) None s')
          \<and> Object_Get quiet_environment s' 2 (PString ''a'') = Some (Returned (Local (JSNumber 1)) None s')
          \<and> Object_Has quiet_environment s' 2 (PString ''a'') = Some (Returned (Just True) None s'))"
proof -
  have a: "assignable (heap fresh_world) 2 (PString ''a'')"
    by code_simp
  from Set_then_Get_Has [OF a, of quiet_environment "JSNumber 1"] a show ?thesis
    by simp
qed

section \<open>The scheduled exception around an accessor call\<close>

text \<open>
  C5 asks that an exception pending before the accessor handler runs be still pending
  after it, unless the callback raised one. The handler does not keep it: whenever an
  exception \<open>p\<close> is pending and the getter callback, run with the cell emptied, returns
  \<open>r\<close> having neither thrown nor scheduled an exception, the handler hands the host the
  callback's value with no exception, in the state the callback left, where the cell is
  empty; \<open>p\<close> is lost.
\<close>

theorem accessor_call_loses_pending:
  assumes "scheduled_exception s = Some p"
    and "getter wrap = Some f"
    and "getter_callbacks env f (m_property wrap) (JSObject this) (m_data wrap)
           (s\<lparr>scheduled_exception := None\<rparr>) = r"
    and "cb_caught r = None"
    and "scheduled_exception (cb_isolate r) = None"
  shows "accessor_callback env s wrap this []
           = Some (case cb_return r of None \<Rightarrow> JSUndefined | Some v \<Rightarrow> v, None, cb_isolate r)
       \<and> scheduled_exception (cb_isolate r) \<noteq> Some p"
  using assms by (simp add: accessor_callback_def Let_def)

text \<open>The case at hand: \<^verbatim>\<open>pending\<close> is scheduled, and the getter only returns 7.\<close>

theorem accessor_call_loses_pending_witness:
  "scheduled_exception pending_world = Some (JSString ''pending'')
   \<and> getter getter_registration = Some 0
   \<and> cb_caught (getter_callbacks quiet_environment 0 (m_property getter_registration) (JSObject 2)
        (m_data getter_registration) (pending_world\<lparr>scheduled_exception := None\<rparr>)) = None
   \<and> scheduled_exception (cb_isolate
        (getter_callbacks quiet_environment 0 (m_property getter_registration) (JSObject 2)
           (m_data getter_registration) (pending_world\<lparr>scheduled_exception := None\<rparr>))) = None
   \<and> map_option (\<lambda>(ret, exc, s'). (ret, exc, scheduled_exception s'))
        (accessor_callback quiet_environment pending_world getter_registration 2 [])
       = Some (JSNumber 7, None, None)"
proof -
  let ?r = "getter_callbacks quiet_environment 0 (m_property getter_registration) (JSObject 2)
        (m_data getter_registration) (pending_world\<lparr>scheduled_exception := None\<rparr>)"
  have a: "scheduled_exception pending_world = Some (JSString ''pending'')"
    by (simp add: pending_world_def)
  have b: "getter getter_registration = Some 0"
    by (simp add: getter_registration_def)
  have c: "cb_caught ?r = None" "scheduled_exception (cb_isolate ?r) = None"
    "cb_return ?r = Some (JSNumber 7)"
    by (simp_all add: quiet_environment_def)
  from accessor_call_loses_pending [OF a b refl c(1) c(2)] a b c show ?thesis
    by simp
qed

section \<open>What SetAccessor installs\<close>

text \<open>
  C6, as stated: a getter-only definition when only the getter is given. With a getter
  and no setter, the property \<^verbatim>\<open>x\<close> gets the accessor function (address 3) as getter and
  a second function (address 4), the closure that replaces the property on assignment,
  as setter: \<^verbatim>\<open>Get\<close> returns the getter's 7, and after \<^verbatim>\<open>Set\<close> of 5 it returns 5.
\<close>

theorem getter_alone_gets_a_setter:
  "properties (heap getter_world 2)
     = [(PString ''x'', AccessorProperty (JSObject 3) (JSObject 4) False True)]
   \<and> call (heap getter_world 4) = ReplaceOnAssign (PString ''x'')
   \<and> map_option observed (Object_Get quiet_environment getter_world 2 (PString ''x''))
       = Some (Some (Local (JSNumber 7), None))
   \<and> map_option observed
       (Object_Get quiet_environment
          (state_after (Object_Set quiet_environment getter_world 2 (PString ''x'') (JSNumber 5))
             getter_world)
          2 (PString ''x''))
       = Some (Some (Local (JSNumber 5), None))"
  by code_simp

text \<open>
  C6, amended: for an object that exists, has the ordinary property methods (it is not an
  array, a typed array, a proxy or another exotic object), is extensible and has no own
  property of the name that is not configurable, and with at least one callback given,
  \<^verbatim>\<open>SetAccessor\<close> succeeds, makes the accessor function (at the next free address, holding
  the registration) and replaces whatever own property the name had by a new accessor
  property, configurable and not enumerable, whose definition goes by the callbacks that
  are non-null: getter and setter both the accessor function when both are given; the
  accessor function as setter and no getter when only the setter is given; the accessor
  function as getter, together with a closure that replaces the property by the assigned
  value as setter, when only the getter is given.
\<close>

theorem SetAccessor_installs:
  assumes "this < next_object s" and "redefinable (heap s) this name"
    and "getter_cb \<noteq> None \<or> setter_cb \<noteq> None"
  shows "\<exists>s'. Object_SetAccessor env s this name getter_cb setter_cb data
                = Returned (Just True) None s'
      \<and> get_own_property (heap s') this name =
          (if setter_cb = None
           then Some (AccessorProperty (JSObject (next_object s))
                        (JSObject (Suc (next_object s))) False True)
           else (if getter_cb = None
                 then Some (AccessorProperty JSUndefined (JSObject (next_object s)) False True)
                 else Some (AccessorProperty (JSObject (next_object s))
                              (JSObject (next_object s)) False True)))
      \<and> call (heap s' (next_object s)) =
          AccessorCallback \<lparr>getter = getter_cb, setter = setter_cb, m_property = name,
             m_data = (case data of Empty \<Rightarrow> JSUndefined | Local d \<Rightarrow> d)\<rparr>
      \<and> (if setter_cb = None then call (heap s' (Suc (next_object s))) = ReplaceOnAssign name
          else next_object s' = Suc (next_object s))"
proof -
  let ?n = "next_object s"
  have ne: "this \<noteq> ?n" "this \<noteq> Suc ?n" using assms(1) by auto
  let ?wrap = "\<lparr>getter = getter_cb, setter = setter_cb, m_property = name,
             m_data = (case data of Empty \<Rightarrow> JSUndefined | Local d \<Rightarrow> d)\<rparr>"
  let ?acc = "\<lparr>properties = [], prototype = JSObject (object_prototype s), extensible = True,
            call = AccessorCallback ?wrap, kind = OrdinaryObject\<rparr>"
  let ?clo = "\<lparr>properties = [], prototype = JSObject (object_prototype s), extensible = True,
            call = ReplaceOnAssign name, kind = OrdinaryObject\<rparr>"
  let ?h1 = "(heap s)(?n := ?acc)"
  let ?h2 = "remove_own_property ?h1 this name"
  let ?h3 = "?h2(Suc ?n := ?clo)"
  let ?s1 = "s\<lparr>heap := ?h1, next_object := Suc ?n\<rparr>"
  let ?s2 = "s\<lparr>heap := ?h2, next_object := Suc ?n\<rparr>"
  let ?s3 = "s\<lparr>heap := ?h3, next_object := Suc (Suc ?n)\<rparr>"
  have mk1: "JSObjectMake s (AccessorCallback ?wrap) = (?n, ?s1)"
    by (simp add: JSObjectMake_eq)
  have r1: "redefinable (heap ?s1) this name"
    using assms(2) ne by (simp add: redefinable_def get_own_property_def)
  have del: "js_delete env ?s1 this name = (Normal True, ?s2)"
    using js_delete_redefinable [OF r1, of env] by simp
  have mk2: "JSObjectMake ?s2 (ReplaceOnAssign name) = (Suc ?n, ?s3)"
    by (simp add: JSObjectMake_eq)
  have ord2: "ordinary_properties (heap ?s2 this)"
    using r1 by (simp add: redefinable_def remove_own_property_def ordinary_properties_def)
  have own2: "get_own_property (heap ?s2) this name = None"
    by (simp add: get_own_property_removed)
  have ext2: "extensible (heap ?s2 this)"
    using r1 by (simp add: redefinable_def remove_own_property_def)
  have call2: "call (?h2 ?n) = AccessorCallback ?wrap"
    using ne by (simp add: remove_own_property_def)
  have ord3: "ordinary_properties (heap ?s3 this)"
    using ord2 ne by simp
  have own3: "get_own_property (heap ?s3) this name = None"
    using own2 ne by (simp add: get_own_property_def)
  have ext3: "extensible (heap ?s3 this)"
    using ext2 ne by simp
  have ok2: "accessor_field_ok (heap ?s2) (Some (JSObject ?n))"
    using call2 by (simp add: accessor_field_ok_def is_callable_def)
  have ok3: "accessor_field_ok (heap ?s3) (Some (JSObject ?n))"
    "accessor_field_ok (heap ?s3) (Some (JSObject (Suc ?n)))"
    using call2 by (simp_all add: accessor_field_ok_def is_callable_def)
  show ?thesis
  proof (cases setter_cb)
    case None
    with assms(3) obtain g where Some: "getter_cb = Some g" by auto
    have "define_accessor env ?s3 this name (Some (JSObject ?n)) (Some (JSObject (Suc ?n))) =
       (Normal (), ?s3\<lparr>heap := set_own_property ?h3 this name
          (AccessorProperty (JSObject ?n) (JSObject (Suc ?n)) False True)\<rparr>)"
      using define_accessor_new [OF ord3 own3 ext3 ok3, of env] by (simp add: field_or_def)
    then show ?thesis
      using None Some del ne call2 mk1 mk2
      by (simp add: Object_SetAccessor_def Object_SetAccessorProperty_def
          snippet_define_accessor_def Let_def toMaybe_def get_own_property_set_same)
        (simp add: set_own_property_def)
  next
    case (Some f)
    show ?thesis
    proof (cases getter_cb)
      case None
      have "define_accessor env ?s2 this name None (Some (JSObject ?n)) =
         (Normal (), ?s2\<lparr>heap := set_own_property ?h2 this name
            (AccessorProperty JSUndefined (JSObject ?n) False True)\<rparr>)"
        using define_accessor_new [OF ord2 own2 ext2 _ ok2, of None env]
        by (simp add: field_or_def accessor_field_ok_def)
      then show ?thesis
        using None Some del ne call2 mk1
        by (simp add: Object_SetAccessor_def Object_SetAccessorProperty_def
            snippet_define_accessor_def Let_def toMaybe_def get_own_property_set_same)
          (simp add: set_own_property_def)
    next
      case gSome: (Some g)
      have "define_accessor env ?s2 this name (Some (JSObject ?n)) (Some (JSObject ?n)) =
         (Normal (), ?s2\<lparr>heap := set_own_property ?h2 this name
            (AccessorProperty (JSObject ?n) (JSObject ?n) False True)\<rparr>)"
        using define_accessor_new [OF ord2 own2 ext2 ok2 ok2, of env] by (simp add: field_or_def)
      then show ?thesis
        using gSome Some del ne call2 mk1
        by (simp add: Object_SetAccessor_def Object_SetAccessorProperty_def
            snippet_define_accessor_def Let_def toMaybe_def get_own_property_set_same)
          (simp add: set_own_property_def)
    qed
  qed
qed

theorem SetAccessor_installs_witness:
  "2 < next_object fresh_world \<and> redefinable (heap fresh_world) 2 (PString ''x'')
   \<and> (\<exists>s'. Object_SetAccessor quiet_environment fresh_world 2 (PString ''x'') None (Some 0) Empty
              = Returned (Just True) None s'
          \<and> get_own_property (heap s') 2 (PString ''x'')
              = Some (AccessorProperty JSUndefined (JSObject 3) False True)
          \<and> call (heap s' 3) =
              AccessorCallback \<lparr>getter = None, setter = Some 0, m_property = PString ''x'',
                                m_data = JSUndefined\<rparr>)"
proof -
  have n: "next_object fresh_world = 3"
    by (simp add: fresh_world_eq)
  have a: "2 < next_object fresh_world"
    by (simp add: n)
  have b: "redefinable (heap fresh_world) 2 (PString ''x'')"
    by (simp add: fresh_world_eq redefinable_def get_own_property_def plain_object_fields)
  have c: "(None :: nat option) \<noteq> None \<or> Some (0 :: nat) \<noteq> None"
    by simp
  from SetAccessor_installs [OF a b c, of quiet_environment Empty] a b show ?thesis
    by (auto simp: n)
qed


section \<open>Internal fields: write, then read\<close>

text \<open>
  On an object with a record whose slot array has the declared size, or with no record
  and neither an array buffer nor a view, and for an index that is not negative, the
  three operations agree: below \<^verbatim>\<open>InternalFieldCount\<close> a write followed by a read of that
  index returns the value, and every other slot of the object and every slot of every
  other object reads as before; otherwise the write changes nothing.
\<close>

lemma internal_field_write_read:
  assumes "slots_as_declared s this" and "0 \<le> index"
  shows "(if index < fst (Object_InternalFieldCount env s this)
          then \<exists>s'. Object_SetInternalField env s this index v = InBounds s'
                 \<and> Object_SlowGetInternalField s' this index = InBounds (Local v)
                 \<and> (\<forall>j. j \<noteq> index \<longrightarrow>
                        Object_SlowGetInternalField s' this j = Object_SlowGetInternalField s this j)
                 \<and> (\<forall>other j. other \<noteq> this \<longrightarrow>
                        Object_SlowGetInternalField s' other j = Object_SlowGetInternalField s other j)
          else Object_SetInternalField env s this index v = InBounds s)"
proof (cases "getPrivateInstance s this")
  case None
  with assms show ?thesis
    by (simp add: slots_as_declared_def Object_InternalFieldCount_def Object_SetInternalField_def)
next
  case (Some wrap)
  with assms have len: "int (length (m_internal_fields wrap)) = m_num_internal_fields wrap"
    by (simp add: slots_as_declared_def)
  show ?thesis
  proof (cases "index < m_num_internal_fields wrap")
    case True
    with len assms(2) have inb: "nat index < length (m_internal_fields wrap)" by linarith
    let ?s' = "setPrivateInstance s this
                 (wrap\<lparr>m_internal_fields := (m_internal_fields wrap)[nat index := Some v]\<rparr>)"
    have set: "Object_SetInternalField env s this index v = InBounds ?s'"
      using Some True inb assms(2) by (simp add: Object_SetInternalField_def)
    have get: "Object_SlowGetInternalField ?s' this index = InBounds (Local v)"
      using True inb assms(2)
      by (simp add: Object_SlowGetInternalField_def setPrivateInstance_def getPrivateInstance_def)
    have others: "Object_SlowGetInternalField ?s' this j = Object_SlowGetInternalField s this j"
      if "j \<noteq> index" for j
    proof -
      have "nat j \<noteq> nat index" if "0 \<le> j" using that \<open>j \<noteq> index\<close> assms(2) by linarith
      then show ?thesis
        using Some
        by (auto simp: Object_SlowGetInternalField_def setPrivateInstance_def getPrivateInstance_def)
    qed
    have objs: "Object_SlowGetInternalField ?s' other j = Object_SlowGetInternalField s other j"
      if "other \<noteq> this" for other j
      using that
      by (simp add: Object_SlowGetInternalField_def setPrivateInstance_def getPrivateInstance_def)
    show ?thesis
      using Some True set get others objs
      by (auto simp: Object_InternalFieldCount_def)
  next
    case False
    with Some show ?thesis
      by (simp add: Object_InternalFieldCount_def Object_SetInternalField_def)
  qed
qed

text \<open>
  An array buffer that has no record has field count 0 (the count is made up for views
  only), while a write at index 0, which is not below the count, makes the record with
  the helper \<^verbatim>\<open>GetArrayBufferInfo\<close> and, when that record has slots, stores the value.
\<close>

lemma buffer_write_beyond_count:
  "fst (Object_InternalFieldCount buffer_environment buffer_world 2) = 0
   \<and> (\<exists>s'. Object_SetInternalField buffer_environment buffer_world 2 0 (JSNumber 5) = InBounds s'
          \<and> Object_SlowGetInternalField s' 2 0 = InBounds (Local (JSNumber 5)))"
proof -
  have bnone: "getPrivateInstance buffer_world 2 = None" "IsArrayBuffer buffer_world 2"
    "\<not> IsArrayBufferView buffer_world 2"
    by (simp_all add: getPrivateInstance_def buffer_world_def fresh_world_eq realm_def
        plain_object_def IsArrayBuffer_def IsArrayBufferView_def)
  have helper: "GetArrayBufferInfo buffer_environment buffer_world 2
                  = setPrivateInstance buffer_world 2 two_slots"
    by (simp add: buffer_environment_def quiet_environment_def)
  let ?s' = "setPrivateInstance (setPrivateInstance buffer_world 2 two_slots) 2
               (two_slots\<lparr>m_internal_fields := [Some (JSNumber 5), None]\<rparr>)"
  have w: "Object_SetInternalField buffer_environment buffer_world 2 0 (JSNumber 5) = InBounds ?s'"
    using bnone helper
    by (simp add: Object_SetInternalField_def getPrivateInstance_def setPrivateInstance_def
        two_slots_def)
  have r: "Object_SlowGetInternalField ?s' 2 0 = InBounds (Local (JSNumber 5))"
    by (simp add: Object_SlowGetInternalField_def getPrivateInstance_def setPrivateInstance_def
        two_slots_def)
  show ?thesis
    using bnone w r by (simp add: Object_InternalFieldCount_def)
qed

text \<open>
  C8 asks that a write at an index below \<^verbatim>\<open>InternalFieldCount\<close> be read back. On a view
  of an array buffer that has no record it is not: for every index below
  \<^verbatim>\<open>ArrayBufferView::kInternalFieldCount\<close>, which is the count \<^verbatim>\<open>InternalFieldCount\<close>
  returns for such an object, \<^verbatim>\<open>SetInternalField\<close> changes nothing and the read that
  follows returns the empty handle.
\<close>

theorem view_write_is_lost:
  assumes "getPrivateInstance s this = None" and "IsArrayBufferView s this"
    and "index < kInternalFieldCount env"
  shows "index < fst (Object_InternalFieldCount env s this)
       \<and> Object_SetInternalField env s this index v = InBounds s
       \<and> Object_SlowGetInternalField s this index = InBounds Empty"
  using assms
  by (simp add: Object_InternalFieldCount_def Object_SetInternalField_def
      Object_SlowGetInternalField_def IsArrayBuffer_def IsArrayBufferView_def)

text \<open>The case at hand: the typed array at address 2, with two internal fields by
  default, index 0 and the value 5.\<close>

theorem view_write_is_lost_witness:
  "getPrivateInstance view_world 2 = None \<and> IsArrayBufferView view_world 2
   \<and> (0 :: int) < kInternalFieldCount quiet_environment
   \<and> (0 :: int) < fst (Object_InternalFieldCount quiet_environment view_world 2)
   \<and> Object_SetInternalField quiet_environment view_world 2 0 (JSNumber 5) = InBounds view_world
   \<and> Object_SlowGetInternalField view_world 2 0 = InBounds Empty"
proof -
  have a: "getPrivateInstance view_world 2 = None"
    by (simp add: getPrivateInstance_def view_world_def fresh_world_eq realm_def)
  have b: "IsArrayBufferView view_world 2"
    by (simp add: IsArrayBufferView_def view_world_def)
  have c: "(0 :: int) < kInternalFieldCount quiet_environment"
    by (simp add: quiet_environment_def)
  from view_write_is_lost [OF a b c, of "JSNumber 5"] a b c show ?thesis
    by simp
qed

section \<open>The prototype walk of FindInstanceInPrototypeChain\<close>

text \<open>
  C9: for every start object whose prototype walk is finite (it visits the objects
  \<open>objs\<close> and then reaches a value that is not an object) and every target template,
  \<^verbatim>\<open>FindInstanceInPrototypeChain\<close> returns, with nothing pending and the state unchanged,
  and what it returns is the first object of the walk, the start object included, whose
  template chain, following the parent-template links, contains the target template; the
  empty handle when the walk has no such object.
\<close>

theorem FindInstance_first_match:
  assumes "prototype_walk env s (JSObject this) objs"
  shows "Object_FindInstanceInPrototypeChain env s this tmpl =
     Some (Returned
       (case find (\<lambda>x. template_address tmpl \<in> set (spec_object_template_chain s x)) objs of
          None \<Rightarrow> Empty | Some x \<Rightarrow> Local x) None s)"
  using assms by (simp add: Object_FindInstanceInPrototypeChain_def find_instance_loop_walk)

text \<open>
  The case at hand: the walk from the object at address 3 visits 3, 2 and 0. The template
  at 10 is found at object 2, two parent links up from its constructor template, and not
  at object 0 further on, whose constructor template it is; the template at 11 at object
  2, one link up; the template at 13 at the start object; the template at 14 nowhere. From
  object 0 the template at 12 is not found: object 2 is not on that walk.
\<close>

theorem FindInstance_first_match_witness:
  "prototype_walk quiet_environment templated_world (JSObject 3) [3, 2, 0]
   \<and> map_option observed
       (Object_FindInstanceInPrototypeChain quiet_environment templated_world 3 (TemplateImpl 10 None))
       = Some (Some (Local 2, None))
   \<and> map_option observed
       (Object_FindInstanceInPrototypeChain quiet_environment templated_world 3
          (TemplateImpl 11 (Some (TemplateImpl 10 None))))
       = Some (Some (Local 2, None))
   \<and> map_option observed
       (Object_FindInstanceInPrototypeChain quiet_environment templated_world 3 (TemplateImpl 13 None))
       = Some (Some (Local 3, None))
   \<and> map_option observed
       (Object_FindInstanceInPrototypeChain quiet_environment templated_world 3 (TemplateImpl 14 None))
       = Some (Some (Empty, None))
   \<and> prototype_walk quiet_environment templated_world (JSObject 0) [0]
   \<and> map_option observed
       (Object_FindInstanceInPrototypeChain quiet_environment templated_world 0
          (TemplateImpl 12 (Some (TemplateImpl 11 (Some (TemplateImpl 10 None))))))
       = Some (Some (Empty, None))"
proof -
  have h: "heap templated_world 3 = plain_object (JSObject 2)"
    "heap templated_world 2 = plain_object (JSObject 0)"
    "heap templated_world 0 =
       (plain_object JSNull)
         \<lparr>properties := [(PString ''hasOwnProperty'', DataProperty (JSObject 1) True False True)]\<rparr>"
    by (simp_all add: templated_world_def setPrivateInstance_def fresh_world_eq realm_def
        realm_heap_def)
  have w: "prototype_walk quiet_environment templated_world (JSObject 3) [3, 2, 0]"
    by (simp add: snippet_getPrototypeOf_def h plain_object_fields)
  have w0: "prototype_walk quiet_environment templated_world (JSObject 0) [0]"
    by (simp add: snippet_getPrototypeOf_def h plain_object_fields)
  have c: "spec_object_template_chain templated_world 3 = [13]"
    "spec_object_template_chain templated_world 2 = [12, 11, 10]"
    "spec_object_template_chain templated_world 0 = [10]"
    by (simp_all add: spec_object_template_chain_def templated_world_def setPrivateInstance_def
        made_from_def)
  from FindInstance_first_match [OF w, of "TemplateImpl 10 None"]
       FindInstance_first_match [OF w, of "TemplateImpl 11 (Some (TemplateImpl 10 None))"]
       FindInstance_first_match [OF w, of "TemplateImpl 13 None"]
       FindInstance_first_match [OF w, of "TemplateImpl 14 None"]
       FindInstance_first_match [OF w0,
         of "TemplateImpl 12 (Some (TemplateImpl 11 (Some (TemplateImpl 10 None))))"]
       w w0 c
  show ?thesis by simp
qed

end
